theory Spec2Isabelle
  imports Main
begin

section \<open>Data model of the HTTP/3 upstream (shrpx\_http3\_upstream.cc)\<close>

text \<open>
  \<open>Http3Upstream\<close> is glue between the QUIC transport (ngtcp2), the HTTP/3 framing
  layer (nghttp3), the per-stream \<open>Downstream\<close> objects and the libev event loop.
  The embedding keeps the fields of the C++ objects in records, threads them through
  every method as explicit state, and records each call that a method makes into one
  of its collaborators as a value of the datatype \<open>call\<close>, in program order.
  What a collaborator returns is an input of the model: the record \<open>env\<close> gives the
  return code of every call, so that each theorem holds for any behaviour of the
  libraries.  Stream ids (\<open>int64_t\<close>) are integers; sizes, offsets, durations in
  nanoseconds and error codes (\<open>size_t\<close>, \<open>uint64_t\<close>) are natural numbers.  The
  methods modelled here compare, copy, take minima of and divide them, and subtract
  under a guard; where they multiply (\<open>t * 3\<close> in \<open>start_graceful_shutdown\<close>) the
  wrap-around is written out; the one sum, of the header bytes stored and the lengths
  of one more field, is of the sizes of buffers in memory and stays below \<open>2^64\<close>.
\<close>

type_synonym stream_id = int

type_synonym bytes = "nat list"

type_synonym nv = "string \<times> string"

text \<open>\<open>quic::ErrorType\<close> and \<open>quic::Error\<close>, the type of \<open>last_error_\<close>.\<close>

datatype ErrorType = Transport | Application

record Error =
  etype :: ErrorType
  code :: nat

text \<open>The values that \<open>ngtcp2_conn_read_pkt\<close> returns, as \<open>on_read\<close> tells them apart:
  success, the six library errors named in its \<open>switch\<close>, and any other library error
  with its number.\<close>

datatype ngtcp2_rv =
    NGTCP2_OK
  | NGTCP2_ERR_DRAINING
  | NGTCP2_ERR_RETRY
  | NGTCP2_ERR_REQUIRED_TRANSPORT_PARAM
  | NGTCP2_ERR_MALFORMED_TRANSPORT_PARAM
  | NGTCP2_ERR_TRANSPORT_PARAM
  | NGTCP2_ERR_DROP_CONN
  | NGTCP2_ERR_other int

text \<open>Calls out of the upstream, with the arguments the properties below depend on.\<close>

datatype call =
    ngtcp2_conn_read_pkt bytes
  | ngtcp2_pkt_decode_version_cid bytes
  | ngtcp2_conn_write_connection_close nat
  | ngtcp2_conn_write_application_close nat
  | ngtcp2_conn_shutdown_stream stream_id nat
  | ngtcp2_conn_shutdown_stream_read stream_id nat
  | ngtcp2_conn_extend_max_stream_offset stream_id nat
  | ngtcp2_conn_extend_max_offset nat
  | ngtcp2_conn_submit_new_token bytes
  | nghttp3_conn_add_ack_offset stream_id nat
  | nghttp3_conn_submit_response stream_id "nv list" bool
  | nghttp3_conn_submit_info stream_id "nv list"
  | nghttp3_conn_submit_shutdown_notice
  | nghttp3_conn_shutdown
  | quic_send_packet bytes nat
  | send_connection_close nat
  | send_retry
  | set_alpn_from_conn
  | signal_write
  | reset_upstream_rtimer stream_id
  | reset_upstream_wtimer stream_id
  | push_upload_data_chunk stream_id nat
  | resume_read stream_id nat
  | update_tstamp
  | stop_read_timer
  | nghttp3_conn_writev_stream
  | ngtcp2_conn_writev_stream stream_id bool
  | nghttp3_conn_block_stream stream_id
  | nghttp3_conn_shutdown_stream_write stream_id
  | nghttp3_conn_add_write_offset stream_id nat
  | ngtcp2_conn_update_pkt_tx_time nat
  | wlimit_stopw
  | get_downstream_connection stream_id
  | ev_timer_again_idle nat
  | ev_timer_start_shutdown nat
  | ev_prepare_stop
  | delete_handler

text \<open>\<open>DownstreamState\<close> and \<open>ConnectProto\<close> of \<open>shrpx_downstream.h\<close>.\<close>

datatype DownstreamState =
    INITIAL
  | HEADER_COMPLETE
  | MSG_COMPLETE
  | STREAM_CLOSED
  | CONNECT_FAIL
  | MSG_RESET
  | MSG_BAD_HEADER
  | HTTP1_REQUEST_HEADER_TOO_LARGE

datatype ConnectProto = ConnectProto_NONE | WEBSOCKET

text \<open>Header tokens (\<open>http2::HD_*\<close>): the ones the response path looks at, and any
  other token with its number (\<open>-1\<close> for a name without token).\<close>

datatype token =
    HD_EARLY_DATA
  | HD_FORWARDED
  | HD_SEC_WEBSOCKET_ACCEPT
  | HD_SERVER
  | HD_VIA
  | HD_X_FORWARDED_FOR
  | HD_X_FORWARDED_PROTO
  | HD_other int

text \<open>A header field with its token, and the header fields of a message with
  \<open>buffer_size\<close>, the running sum of their name and value lengths.\<close>

record HeaderRef =
  hd_name :: string
  hd_value :: string
  hd_token :: token
  hd_no_index :: bool

record FieldStore =
  headers :: "HeaderRef list"
  trailers :: "HeaderRef list"
  buffer_size :: nat

text \<open>Modelled from the spec: \<open>FieldStore::num_fields\<close> (\<open>shrpx_downstream.h\<close>) is
  not part of the sources at hand.  The spec bounds the number of fields of a request,
  trailer fields included.\<close>

definition num_fields :: "FieldStore \<Rightarrow> nat" where
  "num_fields fs = length (headers fs) + length (trailers fs)"

text \<open>The response body buffer: the bytes appended and not yet drained, oldest first,
  and the offset of the mark up to which they have been handed to the HTTP/3 layer.\<close>

record DefaultMemchunks =
  content :: bytes
  mark :: nat

record Request =
  req_fs :: FieldStore
  connect_proto :: ConnectProto
  regular_connect_method :: bool
  scheme :: string

record Response =
  resp_fs :: FieldStore
  http_status :: nat
  http_major :: nat
  http_minor :: nat

text \<open>The part of \<open>Downstream\<close> that the upstream reads and writes, each field under
  the name of its accessor.  \<open>dconn\<close> tells whether a downstream connection is
  attached.\<close>

record Downstream =
  get_stream_id :: stream_id
  request :: Request
  response :: Response
  get_request_state :: DownstreamState
  get_response_state :: DownstreamState
  get_stop_reading :: bool
  get_response_buf :: DefaultMemchunks
  get_non_final_response :: bool
  get_upgraded :: bool
  get_affinity_cookie_to_send :: nat
  expect_response_body :: bool
  expect_response_trailer :: bool
  dconn :: bool
  rcbufs :: "string list"

text \<open>The configuration values the upstream reads through \<open>get_config()\<close>.\<close>

record Config =
  http2_proxy :: bool
  no_location_rewrite :: bool
  no_server_rewrite :: bool
  no_via :: bool
  server_name :: string
  add_response_headers :: "nv list"
  request_header_field_buffer :: nat
  max_request_header_fields :: nat

text \<open>The fields of \<open>Http3Upstream\<close>, without the underscore that ends their
  names in the source (a name ending in an underscore is reserved in Isabelle).
  \<open>httpconn\<close> records whether the pointer is
  non-null; the prepare watcher and the shutdown timer are kept by what
  \<open>ev_is_active\<close> reports, the shutdown timer also by the timeout \<open>ev_timer_set\<close>
  gave it and the idle timer by its repeat value, both in nanoseconds;
  \<open>downstream_queue\<close> holds the downstreams of the queue.\<close>

record Upstream =
  max_udp_payload_size :: nat
  qlog_fd :: int
  hashed_scid :: bytes
  tls_alert :: nat
  httpconn :: bool
  idle_close :: bool
  retry_close :: bool
  last_error :: Error
  conn_close :: bytes
  downstream_queue :: "Downstream list"
  idle_timer_repeat :: nat
  shutdown_timer_active :: bool
  shutdown_timer_after :: nat
  prep_active :: bool

text \<open>The environment: the return code of every call into a collaborator, the two
  library predicates that classify a return code as fatal, the constants and pure
  helpers that the libraries and the other translation units of the proxy provide
  (\<open>shrpx_quic.h\<close>, \<open>http2.h\<close>, \<open>shrpx_http.h\<close>, \<open>util.h\<close>, \<open>memchunk.h\<close>,
  \<open>Downstream::rewrite_location_response_header\<close>, which rewrites header values
  of the response), and the formatted time of the log configuration.\<close>

record env =
  ret :: "call \<Rightarrow> int"
  ngtcp2_err_is_fatal :: "int \<Rightarrow> bool"
  nghttp3_err_is_fatal :: "int \<Rightarrow> bool"
  NGTCP2_MAX_UDP_PAYLOAD_SIZE :: nat
  SHRPX_QUIC_CONN_CLOSE_PKTLEN :: nat
  NGTCP2_CONNECTION_REFUSED :: nat
  NGHTTP3_ERR_CALLBACK_FAILURE :: int
  ngtcp2_err_infer_quic_transport_error_code :: "ngtcp2_rv \<Rightarrow> nat"
  nghttp3_err_infer_quic_app_error_code :: "int \<Rightarrow> nat"
  generate_token :: "bytes \<Rightarrow> bytes \<Rightarrow> bytes option"
  create_error_html :: "nat \<Rightarrow> bytes"
  stringify_status :: "nat \<Rightarrow> string"
  make_string_ref_uint :: "nat \<Rightarrow> string"
  lookup_token :: "string \<Rightarrow> token"
  rewrite_location_response_header :: "string \<Rightarrow> HeaderRef list \<Rightarrow> HeaderRef list"
  create_affinity_cookie :: "nat \<Rightarrow> string \<Rightarrow> string"
  create_via_header_value :: "nat \<Rightarrow> nat \<Rightarrow> string"
  drain_mark :: "DefaultMemchunks \<Rightarrow> nat \<Rightarrow> nat \<times> DefaultMemchunks"
  time_http :: string

text \<open>A method that stops at a failed \<open>assert\<close>, or at an operation that C++ leaves
  undefined, returns the fault instead of a result.\<close>

datatype fault = AssertionFailure | UndefinedBehaviour

text \<open>HTTP/3 application error codes (RFC 9114), as nghttp3 names them.\<close>

definition NGHTTP3_H3_NO_ERROR :: nat where
  "NGHTTP3_H3_NO_ERROR = 0x100"

definition NGHTTP3_H3_GENERAL_PROTOCOL_ERROR :: nat where
  "NGHTTP3_H3_GENERAL_PROTOCOL_ERROR = 0x101"

definition NGHTTP3_H3_INTERNAL_ERROR :: nat where
  "NGHTTP3_H3_INTERNAL_ERROR = 0x102"

text \<open>The two \<open>errno\<close> values \<open>send_packet\<close> looks for.\<close>

definition EINVAL :: int where
  "EINVAL = 22"

definition EMSGSIZE :: int where
  "EMSGSIZE = 90"

section \<open>Stream shutdown and packet sending\<close>

text \<open>\<open>Http3Upstream::shutdown_stream_read\<close>: the parameter \<open>app_error_code\<close> is not
  used; the transport is always given \<open>NGHTTP3_H3_NO_ERROR\<close>.\<close>

definition shutdown_stream_read :: "env \<Rightarrow> stream_id \<Rightarrow> nat \<Rightarrow> int \<times> call list" where
  "shutdown_stream_read e stream_id app_error_code =
     (let c = ngtcp2_conn_shutdown_stream_read stream_id NGHTTP3_H3_NO_ERROR;
          rv = ret e c
      in if ngtcp2_err_is_fatal e rv then (-1, [c]) else (0, [c]))"

text \<open>\<open>Http3Upstream::shutdown_stream\<close>, for a downstream with the given stream id.\<close>

definition shutdown_stream :: "env \<Rightarrow> stream_id \<Rightarrow> nat \<Rightarrow> int \<times> call list" where
  "shutdown_stream e stream_id app_error_code =
     (let c = ngtcp2_conn_shutdown_stream stream_id app_error_code;
          rv = ret e c
      in if rv \<noteq> 0 then (-1, [c]) else (0, [c]))"

text \<open>\<open>Http3Upstream::send_packet\<close>.  \<open>ret e\<close> of the \<open>quic_send_packet\<close> call is what
  the packet I/O adapter returns (0, or a negated \<open>errno\<close>).\<close>

definition send_packet ::
  "env \<Rightarrow> Upstream \<Rightarrow> bytes \<Rightarrow> nat \<Rightarrow> int \<times> Upstream \<times> call list" where
  "send_packet e up data gso_size =
     (let c = quic_send_packet data gso_size;
          rv = ret e c
      in if rv = 0 then (0, up, [c])
         else if rv = - EINVAL \<or> rv = - EMSGSIZE
           then (-1, up\<lparr>max_udp_payload_size := NGTCP2_MAX_UDP_PAYLOAD_SIZE e\<rparr>, [c])
         else (-1, up, [c]))"

section \<open>The transport as the upstream observes it\<close>

text \<open>What the getters of \<open>ngtcp2_conn\<close> report when a method asks: closing period,
  idle expiry and probe timeout (nanoseconds), the path's maximum UDP payload, the send
  quantum, the peer address of the current path, and the CONNECTION\_CLOSE packet the
  transport writes when \<open>handle_error\<close> asks for one.\<close>

record ngtcp2_conn =
  in_closing_period :: bool
  idle_expiry :: nat
  pto :: nat
  path_max_udp_payload_size :: nat
  send_quantum :: nat
  path_remote_addr :: bytes
  close_packet :: bytes

text \<open>The congestion controllers that can be configured.\<close>

datatype ngtcp2_cc_algo =
    NGTCP2_CC_ALGO_RENO
  | NGTCP2_CC_ALGO_CUBIC
  | NGTCP2_CC_ALGO_BBR

text \<open>\<open>std::vector::resize\<close> on a byte vector: truncate, or pad with zero bytes.\<close>

definition resize :: "nat \<Rightarrow> bytes \<Rightarrow> bytes" where
  "resize n xs = take n xs @ replicate (n - length xs) 0"

text \<open>Modelled from the spec: \<open>quic::err_transport\<close> (\<open>shrpx_quic.cc\<close>) is not
  part of the sources at hand.  The spec writes its value as \<open>Transport(code)\<close>,
  the code being the one the transport library infers from its return value.\<close>

definition err_transport :: "env \<Rightarrow> ngtcp2_rv \<Rightarrow> Error" where
  "err_transport e liberr =
     \<lparr>etype = Transport, code = ngtcp2_err_infer_quic_transport_error_code e liberr\<rparr>"

text \<open>\<open>Http3Upstream::handle_error\<close>.  The return value of \<open>send_packet\<close> is ignored,
  its effect on the upstream is kept.\<close>

definition handle_error ::
  "env \<Rightarrow> ngtcp2_conn \<Rightarrow> Upstream \<Rightarrow> int \<times> Upstream \<times> call list" where
  "handle_error e cn up =
     (if in_closing_period cn then (-1, up, [])
      else
        let buf = resize (SHRPX_QUIC_CONN_CLOSE_PKTLEN e) (conn_close up);
            c = (if etype (last_error up) = Transport
                 then ngtcp2_conn_write_connection_close (code (last_error up))
                 else ngtcp2_conn_write_application_close (code (last_error up)));
            nwrite = ret e c
        in if nwrite < 0 then (-1, up\<lparr>conn_close := buf\<rparr>, [c])
           else
             let pkt = resize (nat nwrite)
                         (close_packet cn @ drop (length (close_packet cn)) buf);
                 (rv, up', cs) = send_packet e (up\<lparr>conn_close := pkt\<rparr>) pkt 0
             in (-1, up', c # cs))"

text \<open>\<open>Http3Upstream::reset_idle_timer\<close>: the repeat value is \<open>idle_ts - ts\<close>
  nanoseconds, or \<open>1e-9\<close> seconds, one nanosecond, when the expiry is not ahead.\<close>

definition reset_idle_timer :: "ngtcp2_conn \<Rightarrow> nat \<Rightarrow> Upstream \<Rightarrow> Upstream \<times> call list" where
  "reset_idle_timer cn ts up =
     (let idle_ts = idle_expiry cn;
          repeat = (if idle_ts > ts then idle_ts - ts else 1)
      in (up\<lparr>idle_timer_repeat := repeat\<rparr>, [ev_timer_again_idle repeat]))"

text \<open>\<open>Http3Upstream::on_read\<close> (the overload that feeds a packet).  \<open>rv\<close> is what
  \<open>ngtcp2_conn_read_pkt\<close> returned, \<open>graceful_shutdown\<close> what
  \<open>worker->get_graceful_shutdown()\<close> reports and \<open>ts\<close> the value of
  \<open>quic_timestamp()\<close>.\<close>

definition on_read ::
  "env \<Rightarrow> ngtcp2_conn \<Rightarrow> bool \<Rightarrow> nat \<Rightarrow> Upstream \<Rightarrow> ngtcp2_rv \<Rightarrow> bytes
     \<Rightarrow> int \<times> Upstream \<times> call list" where
  "on_read e cn graceful_shutdown ts up rv data =
     (let c0 = ngtcp2_conn_read_pkt data;
          fail = (\<lambda>up1. let (r, up2, cs) = handle_error e cn up1 in (r, up2, c0 # cs))
      in if rv \<noteq> NGTCP2_OK then
           (case rv of
              NGTCP2_ERR_DRAINING \<Rightarrow> (-1, up, [c0])
            | NGTCP2_ERR_RETRY \<Rightarrow>
                (let c1 = ngtcp2_pkt_decode_version_cid data
                 in if ret e c1 \<noteq> 0 then (-1, up, [c0, c1])
                    else if graceful_shutdown
                      then (-1, up,
                            [c0, c1, send_connection_close (NGTCP2_CONNECTION_REFUSED e)])
                    else (-1, up\<lparr>retry_close := True\<rparr>, [c0, c1, send_retry]))
            | NGTCP2_ERR_REQUIRED_TRANSPORT_PARAM \<Rightarrow>
                fail (up\<lparr>last_error := err_transport e rv\<rparr>)
            | NGTCP2_ERR_MALFORMED_TRANSPORT_PARAM \<Rightarrow>
                fail (up\<lparr>last_error := err_transport e rv\<rparr>)
            | NGTCP2_ERR_TRANSPORT_PARAM \<Rightarrow>
                fail (up\<lparr>last_error := err_transport e rv\<rparr>)
            | NGTCP2_ERR_DROP_CONN \<Rightarrow> (-1, up, [c0])
            | _ \<Rightarrow>
                fail (if code (last_error up) = 0
                      then up\<lparr>last_error := err_transport e rv\<rparr> else up))
         else
           let (up', cs) = reset_idle_timer cn ts up in (0, up', c0 # cs))"

section \<open>Packet pacing\<close>

text \<open>The prologue of \<open>Http3Upstream::write_streams\<close> (the loop follows below): the
  effective maximum UDP payload and \<open>max_pktcnt\<close>.  \<open>64_k\<close> is 65536.  A zero payload size makes the
  division undefined in C++; the model returns the fault there.\<close>

definition write_streams_max_udp_payload_size :: "ngtcp2_conn \<Rightarrow> Upstream \<Rightarrow> nat" where
  "write_streams_max_udp_payload_size cn up =
     min (max_udp_payload_size up) (path_max_udp_payload_size cn)"

definition write_streams_max_pktcnt ::
  "ngtcp2_cc_algo \<Rightarrow> ngtcp2_conn \<Rightarrow> Upstream \<Rightarrow> fault + nat" where
  "write_streams_max_pktcnt congestion_controller cn up =
     (let payload_size = write_streams_max_udp_payload_size cn up
      in if payload_size = 0 then Inl UndefinedBehaviour
         else
           let max_pktcnt = min 65536 (send_quantum cn) div payload_size
           in if congestion_controller \<noteq> NGTCP2_CC_ALGO_BBR
              then Inr (min max_pktcnt 10) else Inr max_pktcnt)"

text \<open>Modelled from the spec: \<open>quic::err_application\<close> (\<open>shrpx_quic.cc\<close>) is not
  part of the sources at hand.  The spec has an \<open>Application\<close> error, with its numeric
  code, for what the HTTP/3 layer reports; the code is the one the HTTP/3 library
  infers from its return value.\<close>

definition err_application :: "env \<Rightarrow> int \<Rightarrow> Error" where
  "err_application e liberr =
     \<lparr>etype = Application, code = nghttp3_err_infer_quic_app_error_code e liberr\<rparr>"

text \<open>The loop of \<open>Http3Upstream::write_streams\<close>.  What the libraries answer in one
  turn of the loop is an \<open>iteration\<close>: the connection-level room
  \<open>ngtcp2_conn_get_max_data_left\<close> reports; count, stream id and fin flag of
  \<open>nghttp3_conn_writev_stream\<close>, which is asked only with an HTTP/3 connection and
  room left; from \<open>ngtcp2_conn_writev_stream\<close> the packet written (\<open>nwrite\<close> is its
  length) or the error, \<open>ndatalen\<close>, and the path and ECN mark of the packet; and the
  return code of the one call into the HTTP/3 layer that may follow.\<close>

datatype ngtcp2_writev_rv =
    NWRITE bytes
  | NGTCP2_ERR_STREAM_DATA_BLOCKED
  | NGTCP2_ERR_STREAM_SHUT_WR
  | NGTCP2_ERR_WRITE_MORE
  | NGTCP2_ERR_writev ngtcp2_rv

record iteration =
  it_max_data_left :: nat
  it_sveccnt :: int
  it_stream_id :: stream_id
  it_fin :: bool
  it_nwrite :: ngtcp2_writev_rv
  it_ndatalen :: int
  it_path :: nat
  it_ecn :: nat
  it_rv :: int

text \<open>The local variables that live across turns: the bytes between \<open>buf.data()\<close> and
  \<open>bufpos\<close>, \<open>pktcnt\<close>, path and ECN mark of the first packet (\<open>prev_ps\<close>,
  \<open>prev_pi\<close>), and, for the properties below, the packets the transport has written
  since the call began.\<close>

record write_locals =
  buffered :: bytes
  pktcnt :: nat
  prev_ps :: nat
  prev_pi :: nat
  packets :: "bytes list"

type_synonym write_result = "fault + (int \<times> Upstream \<times> call list \<times> bytes list)"

datatype write_step = Done write_result | Next Upstream write_locals "call list"

text \<open>\<open>return handle_error();\<close> inside the loop.\<close>

definition write_streams_fail ::
  "env \<Rightarrow> ngtcp2_conn \<Rightarrow> Upstream \<Rightarrow> call list \<Rightarrow> bytes list \<Rightarrow> write_result" where
  "write_streams_fail e cn up cs pkts =
     (let (r, up', hcs) = handle_error e cn up in Inr (r, up', cs @ hcs, pkts))"

text \<open>A call into the HTTP/3 layer on \<open>httpconn_\<close> that ends the turn: a failure sets
  \<open>last_error_\<close> and goes to \<open>handle_error\<close>, a success goes on.  The pointer is
  not tested; with a null pointer the call is undefined.\<close>

definition write_streams_h3 ::
  "env \<Rightarrow> ngtcp2_conn \<Rightarrow> Upstream \<Rightarrow> write_locals \<Rightarrow> call list \<Rightarrow> call \<Rightarrow> int \<Rightarrow> write_step" where
  "write_streams_h3 e cn up l cs c rv =
     (if \<not> httpconn up then Done (Inl UndefinedBehaviour)
      else if rv \<noteq> 0
        then Done (write_streams_fail e cn (up\<lparr>last_error := err_application e rv\<rparr>)
                     (cs @ [c]) (packets l))
      else Next up l (cs @ [c]))"

text \<open>Sending what is buffered and ending the burst: \<open>send_packet\<close>,
  \<open>ngtcp2_conn_update_pkt_tx_time\<close>, \<open>reset_idle_timer\<close>, \<open>signal_write\<close>,
  \<open>return 0\<close>.\<close>

definition write_streams_flush ::
  "env \<Rightarrow> ngtcp2_conn \<Rightarrow> nat \<Rightarrow> nat \<Rightarrow> nat \<Rightarrow> Upstream \<Rightarrow> bytes \<Rightarrow> call list \<Rightarrow> bytes list
     \<Rightarrow> write_result" where
  "write_streams_flush e cn ts now gso_size up data cs pkts =
     (let (r, up1, scs) = send_packet e up data gso_size;
          (up2, tcs) = reset_idle_timer cn now up1
      in Inr (0, up2,
              cs @ scs @ [ngtcp2_conn_update_pkt_tx_time ts] @ tcs @ [signal_write], pkts))"

text \<open>The turn from \<open>if (nwrite == 0)\<close> on, for a packet \<open>pkt\<close> written at
  \<open>bufpos\<close>.  \<open>udp_segment\<close> tells whether the build defines \<open>UDP_SEGMENT\<close>.
  \<open>buf\<close> holds 65536 bytes; a packet written past its end is undefined.
  \<open>++pktcnt\<close> is in \<open>size_t\<close>, 64 bits wide.  \<open>max_payload\<close> is the local
  \<open>max_udp_payload_size\<close> of the method, named apart from the field
  of the upstream.\<close>

definition write_streams_packet ::
  "env \<Rightarrow> ngtcp2_conn \<Rightarrow> bool \<Rightarrow> nat \<Rightarrow> nat \<Rightarrow> nat \<Rightarrow> nat \<Rightarrow> iteration \<Rightarrow> bytes
     \<Rightarrow> Upstream \<Rightarrow> write_locals \<Rightarrow> call list \<Rightarrow> write_step" where
  "write_streams_packet e cn udp_segment ts now max_payload max_pktcnt it pkt up l cs =
     (let nwrite = length pkt
      in if nwrite = 0 then
           (if buffered l \<noteq> [] then
              let (r, up1, scs) = send_packet e up (buffered l) max_payload;
                  (up2, tcs) = reset_idle_timer cn now up1
              in Done (Inr (0, up2,
                            cs @ scs @ tcs @ [ngtcp2_conn_update_pkt_tx_time ts, wlimit_stopw],
                            packets l))
            else Done (Inr (0, up, cs @ [ngtcp2_conn_update_pkt_tx_time ts, wlimit_stopw],
                            packets l)))
         else if length (buffered l) + nwrite > 65536 then Done (Inl UndefinedBehaviour)
         else
           let buf = buffered l @ pkt;
               pkts = packets l @ [pkt];
               pktcnt' = (pktcnt l + 1) mod 2 ^ 64
           in if udp_segment then
                if pktcnt l \<noteq> 0 \<and> (prev_ps l \<noteq> it_path it \<or> prev_pi l \<noteq> it_ecn it) then
                  let (r1, up1, scs1) = send_packet e up (buffered l) max_payload;
                      (r2, up2, scs2) = send_packet e up1 pkt max_payload;
                      (up3, tcs) = reset_idle_timer cn now up2
                  in Done (Inr (0, up3,
                                cs @ scs1 @ scs2 @ [ngtcp2_conn_update_pkt_tx_time ts] @ tcs
                                @ [signal_write],
                                pkts))
                else
                  let l1 = (if pktcnt l = 0
                            then l\<lparr>prev_ps := it_path it, prev_pi := it_ecn it\<rparr> else l)
                  in if pktcnt' = max_pktcnt \<or> nwrite < max_payload
                     then Done (write_streams_flush e cn ts now max_payload up buf cs pkts)
                     else Next up (l1\<lparr>buffered := buf, pktcnt := pktcnt', packets := pkts\<rparr>) cs
              else
                let (r, up1, scs) = send_packet e up buf 0
                in if pktcnt' = max_pktcnt then
                     let (up2, tcs) = reset_idle_timer cn now up1
                     in Done (Inr (0, up2,
                                   cs @ scs @ [ngtcp2_conn_update_pkt_tx_time ts] @ tcs
                                   @ [signal_write],
                                   pkts))
                   else Next up1 (l\<lparr>buffered := [], pktcnt := pktcnt', packets := pkts\<rparr>)
                          (cs @ scs))"

text \<open>The turn from the return of \<open>ngtcp2_conn_writev_stream\<close> on, up to
  \<open>if (nwrite == 0)\<close>: the error codes with their \<open>assert\<close>s, and the write
  offset added when the packet took stream data.\<close>

definition write_streams_written ::
  "env \<Rightarrow> ngtcp2_conn \<Rightarrow> bool \<Rightarrow> nat \<Rightarrow> nat \<Rightarrow> nat \<Rightarrow> nat \<Rightarrow> iteration \<Rightarrow> stream_id
     \<Rightarrow> Upstream \<Rightarrow> write_locals \<Rightarrow> call list \<Rightarrow> write_step" where
  "write_streams_written e cn udp_segment ts now max_payload max_pktcnt it sid up l cs =
     (case it_nwrite it of
        NGTCP2_ERR_STREAM_DATA_BLOCKED \<Rightarrow>
          if it_ndatalen it \<noteq> -1 then Done (Inl AssertionFailure)
          else write_streams_h3 e cn up l cs (nghttp3_conn_block_stream sid) (it_rv it)
      | NGTCP2_ERR_STREAM_SHUT_WR \<Rightarrow>
          if it_ndatalen it \<noteq> -1 then Done (Inl AssertionFailure)
          else write_streams_h3 e cn up l cs
                 (nghttp3_conn_shutdown_stream_write sid) (it_rv it)
      | NGTCP2_ERR_WRITE_MORE \<Rightarrow>
          if it_ndatalen it < 0 then Done (Inl AssertionFailure)
          else write_streams_h3 e cn up l cs
                 (nghttp3_conn_add_write_offset sid (nat (it_ndatalen it))) (it_rv it)
      | NGTCP2_ERR_writev liberr \<Rightarrow>
          if it_ndatalen it \<noteq> -1 then Done (Inl AssertionFailure)
          else Done (write_streams_fail e cn (up\<lparr>last_error := err_transport e liberr\<rparr>)
                       (cs @ [wlimit_stopw]) (packets l))
      | NWRITE pkt \<Rightarrow>
          (case (if it_ndatalen it \<ge> 0
                 then write_streams_h3 e cn up l cs
                        (nghttp3_conn_add_write_offset sid (nat (it_ndatalen it))) (it_rv it)
                 else Next up l cs) of
             Done r \<Rightarrow> Done r
           | Next up' l' cs' \<Rightarrow>
               write_streams_packet e cn udp_segment ts now max_payload max_pktcnt
                 it pkt up' l' cs'))"

text \<open>One turn of the loop.  \<open>Done\<close> is a \<open>return\<close> (or a fault), \<open>Next\<close> the next
  turn, by \<open>continue\<close> or by reaching the end of the body.\<close>

definition write_streams_iteration ::
  "env \<Rightarrow> ngtcp2_conn \<Rightarrow> bool \<Rightarrow> nat \<Rightarrow> nat \<Rightarrow> nat \<Rightarrow> nat \<Rightarrow> iteration
     \<Rightarrow> Upstream \<Rightarrow> write_locals \<Rightarrow> call list \<Rightarrow> write_step" where
  "write_streams_iteration e cn udp_segment ts now max_payload max_pktcnt it up l cs =
     (let h3 = (httpconn up \<and> it_max_data_left it \<noteq> 0);
          sveccnt = (if h3 then it_sveccnt it else 0);
          sid = (if h3 then it_stream_id it else -1);
          fin_flag = (h3 \<and> it_fin it);
          cs1 = (if h3 then cs @ [nghttp3_conn_writev_stream] else cs)
      in if sveccnt < 0
         then Done (write_streams_fail e cn (up\<lparr>last_error := err_application e sveccnt\<rparr>)
                      cs1 (packets l))
         else write_streams_written e cn udp_segment ts now max_payload max_pktcnt it sid
                up l (cs1 @ [ngtcp2_conn_writev_stream sid fin_flag]))"

text \<open>The loop: one turn after the other until a turn returns.  The answers of the
  libraries are given for the turns in order; the loop has no bound of its own, and a
  list of answers that ends before a turn returns leaves the method running
  (\<open>None\<close>).\<close>

fun write_streams_loop ::
  "env \<Rightarrow> ngtcp2_conn \<Rightarrow> bool \<Rightarrow> nat \<Rightarrow> nat \<Rightarrow> nat \<Rightarrow> nat \<Rightarrow> iteration list
     \<Rightarrow> Upstream \<Rightarrow> write_locals \<Rightarrow> call list \<Rightarrow> write_result option" where
  "write_streams_loop e cn udp_segment ts now max_payload max_pktcnt [] up l cs = None"
| "write_streams_loop e cn udp_segment ts now max_payload max_pktcnt (it # its) up l cs =
     (case write_streams_iteration e cn udp_segment ts now max_payload max_pktcnt
             it up l cs of
        Done r \<Rightarrow> Some r
      | Next up' l' cs' \<Rightarrow>
          write_streams_loop e cn udp_segment ts now max_payload max_pktcnt
            its up' l' cs')"

text \<open>\<open>Http3Upstream::write_streams\<close>: the prologue, then the loop.  \<open>ts\<close> is the
  value of \<open>quic_timestamp()\<close> at the head of the method, \<open>now\<close> its value in
  \<open>reset_idle_timer\<close>.  The result carries the return value, the upstream, the calls
  made and the packets the transport wrote during the call.\<close>

definition write_streams ::
  "env \<Rightarrow> ngtcp2_conn \<Rightarrow> bool \<Rightarrow> ngtcp2_cc_algo \<Rightarrow> nat \<Rightarrow> nat \<Rightarrow> iteration list \<Rightarrow> Upstream
     \<Rightarrow> write_result option" where
  "write_streams e cn udp_segment congestion_controller ts now its up =
     (case write_streams_max_pktcnt congestion_controller cn up of
        Inl f \<Rightarrow> Some (Inl f)
      | Inr max_pktcnt \<Rightarrow>
          write_streams_loop e cn udp_segment ts now
            (write_streams_max_udp_payload_size cn up) max_pktcnt its up
            \<lparr>buffered = [], pktcnt = 0, prev_ps = 0, prev_pi = 0, packets = []\<rparr> [])"

text \<open>A turn in which the transport writes the packet \<open>pkt\<close> on path \<open>p\<close> with ECN
  mark \<open>c\<close>, with no room left at connection level, so that the HTTP/3 layer is not
  asked, and no stream data in the packet.\<close>

definition packet_turn :: "nat \<Rightarrow> nat \<Rightarrow> bytes \<Rightarrow> iteration" where
  "packet_turn p c pkt =
     \<lparr>it_max_data_left = 0, it_sveccnt = 0, it_stream_id = -1, it_fin = False,
      it_nwrite = NWRITE pkt, it_ndatalen = -1, it_path = p, it_ecn = c, it_rv = 0\<rparr>"

text \<open>The payload handed to the socket by a list of calls: the data of its
  \<open>quic_send_packet\<close> calls, in order.\<close>

definition sent_data :: "call list \<Rightarrow> bytes" where
  "sent_data cs =
     concat (map (\<lambda>c. case c of quic_send_packet data gso_size \<Rightarrow> data | _ \<Rightarrow> []) cs)"

text \<open>The number of packets of the burst of a call that returned.\<close>

definition burst_length :: "write_result option \<Rightarrow> nat option" where
  "burst_length r =
     (case r of Some (Inr (rv, up', cs, pkts)) \<Rightarrow> Some (length pkts) | _ \<Rightarrow> None)"

text \<open>What holds at the head of every turn of the loop when \<open>n\<close> is \<open>max_pktcnt\<close>:
  \<open>pktcnt\<close> counts the packets written so far and is below \<open>n\<close>, and what was sent
  together with what is buffered is these packets.  \<open>burst_ok\<close> is what a return then
  satisfies.\<close>

definition burst_inv :: "nat \<Rightarrow> write_locals \<Rightarrow> call list \<Rightarrow> bool" where
  "burst_inv n l cs \<longleftrightarrow>
     length (packets l) = pktcnt l \<and> pktcnt l < n
     \<and> sent_data cs @ buffered l = concat (packets l)"

definition burst_ok :: "nat \<Rightarrow> write_result \<Rightarrow> bool" where
  "burst_ok n r \<longleftrightarrow>
     (case r of Inl f \<Rightarrow> True
      | Inr (rv, up', cs, pkts) \<Rightarrow> length pkts \<le> n \<and> (rv = 0 \<longrightarrow> sent_data cs = concat pkts))"

section \<open>Handshake completion\<close>

text \<open>\<open>Http3Upstream::handshake_completed\<close>.  \<open>alpn\<close> is what \<open>handler_->get_alpn()\<close>
  returns after \<open>set_alpn_from_conn\<close>; \<open>keying_materials\<close> holds the secrets of the
  keying materials, current one first; \<open>front()\<close> of an empty list is undefined in
  C++, and the fault here.  \<open>generate_token e addr secret\<close> is \<open>None\<close> when
  \<open>generate_token\<close> fails.\<close>

definition handshake_completed ::
  "env \<Rightarrow> ngtcp2_conn \<Rightarrow> string \<Rightarrow> bytes list \<Rightarrow> fault + (int \<times> call list)" where
  "handshake_completed e cn alpn keying_materials =
     (if alpn = [] then Inr (-1, [set_alpn_from_conn])
      else
        case keying_materials of
          [] \<Rightarrow> Inl UndefinedBehaviour
        | secret # _ \<Rightarrow>
            (case generate_token e (path_remote_addr cn) secret of
               None \<Rightarrow> Inr (0, [set_alpn_from_conn])
             | Some token \<Rightarrow>
                 let c = ngtcp2_conn_submit_new_token token
                 in if ret e c \<noteq> 0 then Inr (-1, [set_alpn_from_conn, c])
                    else Inr (0, [set_alpn_from_conn, c])))"

text \<open>The number of address-validation tokens handed to the transport in a trace.\<close>

fun is_submit_new_token :: "call \<Rightarrow> bool" where
  "is_submit_new_token (ngtcp2_conn_submit_new_token t) = True"
| "is_submit_new_token _ = False"

definition tokens_submitted :: "call list \<Rightarrow> nat" where
  "tokens_submitted cs = length (filter is_submit_new_token cs)"

section \<open>Graceful shutdown\<close>

text \<open>\<open>Http3Upstream::start_graceful_shutdown\<close>.  It hands \<open>httpconn_\<close> to
  \<open>nghttp3_conn_submit_shutdown_notice\<close> without the test for a null pointer that
  \<open>stream_close\<close>, \<open>acked_stream_data_offset\<close>, \<open>extend_max_stream_data\<close> and
  \<open>http_shutdown_stream_read\<close> make; the library takes a connection, and with a null
  pointer the call is undefined: the model returns the fault.  The timeout is \<open>t * 3\<close>
  in \<open>uint64_t\<close> nanoseconds; the conversion to seconds as a \<open>double\<close> is not
  modelled.\<close>

definition start_graceful_shutdown ::
  "env \<Rightarrow> ngtcp2_conn \<Rightarrow> Upstream \<Rightarrow> fault + (int \<times> Upstream \<times> call list)" where
  "start_graceful_shutdown e cn up =
     (if shutdown_timer_active up then Inr (0, up, [])
      else if \<not> httpconn up then Inl UndefinedBehaviour
      else
        let c = nghttp3_conn_submit_shutdown_notice
        in if ret e c \<noteq> 0 then Inr (-1, up, [c])
           else
             let t = pto cn;
                 after = (t * 3) mod 2 ^ 64
             in Inr (0, up\<lparr>shutdown_timer_active := True, shutdown_timer_after := after\<rparr>,
                     [c, signal_write, ev_timer_start_shutdown after]))"

text \<open>\<open>Http3Upstream::check_shutdown\<close>; it stops the prepare watcher.\<close>

definition check_shutdown ::
  "env \<Rightarrow> ngtcp2_conn \<Rightarrow> bool \<Rightarrow> Upstream \<Rightarrow> fault + (int \<times> Upstream \<times> call list)" where
  "check_shutdown e cn graceful_shutdown up =
     (if \<not> graceful_shutdown then Inr (0, up, [])
      else
        case start_graceful_shutdown e cn (up\<lparr>prep_active := False\<rparr>) of
          Inl f \<Rightarrow> Inl f
        | Inr (rv, up', cs) \<Rightarrow> Inr (rv, up', ev_prepare_stop # cs))"

text \<open>\<open>Http3Upstream::submit_goaway\<close>; it hands \<open>httpconn_\<close> to
  \<open>nghttp3_conn_shutdown\<close>, untested as well.\<close>

definition submit_goaway :: "env \<Rightarrow> Upstream \<Rightarrow> fault + (int \<times> call list)" where
  "submit_goaway e up =
     (if \<not> httpconn up then Inl UndefinedBehaviour
      else
        let c = nghttp3_conn_shutdown
        in if ret e c \<noteq> 0 then Inr (-1, [c]) else Inr (0, [c, signal_write]))"

text \<open>The event loop around them.  A loop state is the upstream, whether its handler
  has been deleted, and the calls made so far.  \<open>prepare_cb\<close> and
  \<open>shutdown_timeout_cb\<close> delete the handler when the method they call fails; the
  destructor stops every watcher.\<close>

record loop_state =
  upstream :: Upstream
  handler_deleted :: bool
  trace :: "call list"

definition delete_handler_now :: "loop_state \<Rightarrow> loop_state" where
  "delete_handler_now st =
     st\<lparr>upstream := (upstream st)\<lparr>prep_active := False, shutdown_timer_active := False\<rparr>,
        handler_deleted := True,
        trace := trace st @ [delete_handler]\<rparr>"

definition prepare_cb ::
  "env \<Rightarrow> ngtcp2_conn \<Rightarrow> bool \<Rightarrow> loop_state \<Rightarrow> fault + loop_state" where
  "prepare_cb e cn graceful_shutdown st =
     (case check_shutdown e cn graceful_shutdown (upstream st) of
        Inl f \<Rightarrow> Inl f
      | Inr (rv, up', cs) \<Rightarrow>
          let st' = st\<lparr>upstream := up', trace := trace st @ cs\<rparr>
          in if rv \<noteq> 0 then Inr (delete_handler_now st') else Inr st')"

definition shutdown_timeout_cb :: "env \<Rightarrow> loop_state \<Rightarrow> fault + loop_state" where
  "shutdown_timeout_cb e st =
     (case submit_goaway e (upstream st) of
        Inl f \<Rightarrow> Inl f
      | Inr (rv, cs) \<Rightarrow>
          let st' = st\<lparr>trace := trace st @ cs\<rparr>
          in if rv \<noteq> 0 then Inr (delete_handler_now st') else Inr st')"

text \<open>What libev does with the two watchers: a prepare watcher runs in an iteration
  only while it is active; a timer fires only while it is active, and a timer without
  repeat value, as \<open>shutdown_timer_\<close> is, is stopped before its callback runs.\<close>

datatype loop_event = PREPARE | SHUTDOWN_TIMEOUT

fun loop_step ::
  "env \<Rightarrow> ngtcp2_conn \<Rightarrow> bool \<Rightarrow> loop_state \<Rightarrow> loop_event \<Rightarrow> fault + loop_state" where
  "loop_step e cn g st PREPARE =
     (if \<not> handler_deleted st \<and> prep_active (upstream st) then prepare_cb e cn g st
      else Inr st)"
| "loop_step e cn g st SHUTDOWN_TIMEOUT =
     (if \<not> handler_deleted st \<and> shutdown_timer_active (upstream st)
      then shutdown_timeout_cb e
             (st\<lparr>upstream := (upstream st)\<lparr>shutdown_timer_active := False\<rparr>\<rparr>)
      else Inr st)"

text \<open>A run of the loop stops at the first fault.\<close>

fun run_loop ::
  "env \<Rightarrow> ngtcp2_conn \<Rightarrow> bool \<Rightarrow> loop_state \<Rightarrow> loop_event list \<Rightarrow> fault + loop_state" where
  "run_loop e cn g st [] = Inr st"
| "run_loop e cn g st (ev # evs) =
     (case loop_step e cn g st ev of
        Inl f \<Rightarrow> Inl f
      | Inr st' \<Rightarrow> run_loop e cn g st' evs)"

text \<open>The state the constructor leaves: prepare watcher started, shutdown timer
  initialised but not started, no HTTP/3 connection yet (\<open>httpconn_\<close> is set up when
  the transport installs the application-level transmit key).\<close>

definition constructed :: "loop_state \<Rightarrow> bool" where
  "constructed st =
     (\<not> handler_deleted st \<and> prep_active (upstream st)
      \<and> \<not> shutdown_timer_active (upstream st) \<and> \<not> httpconn (upstream st)
      \<and> trace st = [])"

text \<open>Counting the shutdown notices and the GOAWAYs submitted so far, and the two
  phases of a graceful shutdown that the loop passes through once the HTTP/3 connection
  exists.\<close>

definition notices :: "loop_state \<Rightarrow> nat" where
  "notices st = count_list (trace st) nghttp3_conn_submit_shutdown_notice"

definition goaways :: "loop_state \<Rightarrow> nat" where
  "goaways st = count_list (trace st) nghttp3_conn_shutdown"

definition before_notice :: "loop_state \<Rightarrow> bool" where
  "before_notice st =
     (httpconn (upstream st)
      \<and> \<not> handler_deleted st \<and> prep_active (upstream st)
      \<and> \<not> shutdown_timer_active (upstream st) \<and> notices st = 0 \<and> goaways st = 0)"

definition after_notice :: "loop_state \<Rightarrow> bool" where
  "after_notice st =
     (httpconn (upstream st)
      \<and> \<not> prep_active (upstream st) \<and> notices st = 1
      \<and> (if shutdown_timer_active (upstream st)
          then \<not> handler_deleted st \<and> goaways st = 0 else goaways st \<le> 1))"

section \<open>Flow control: acknowledgements and request body\<close>



text \<open>\<open>Http3Upstream::consume\<close>: credit to the stream window, then to the connection
  window.\<close>

definition consume :: "stream_id \<Rightarrow> nat \<Rightarrow> call list" where
  "consume stream_id nconsumed =
     [ngtcp2_conn_extend_max_stream_offset stream_id nconsumed,
      ngtcp2_conn_extend_max_offset nconsumed]"

text \<open>\<open>Http3Upstream::http_recv_data\<close>; \<open>datalen\<close> is the length of \<open>data\<close>.  The
  return value of \<open>shutdown_stream\<close> is ignored.\<close>

definition http_recv_data :: "env \<Rightarrow> Downstream \<Rightarrow> bytes \<Rightarrow> int \<times> call list" where
  "http_recv_data e downstream data =
     (let datalen = length data;
          sid = get_stream_id downstream;
          c0 = reset_upstream_rtimer sid;
          c1 = push_upload_data_chunk sid datalen
      in if ret e c1 \<noteq> 0 then
           (0, [c0, c1]
               @ (if get_response_state downstream \<noteq> MSG_COMPLETE
                  then snd (shutdown_stream e sid NGHTTP3_H3_INTERNAL_ERROR) else [])
               @ consume sid datalen)
         else (0, [c0, c1]))"

section \<open>Request header fields and error replies\<close>

text \<open>Modelled from the spec: \<open>DefaultMemchunks::append\<close> (\<open>memchunk.h\<close>) is not
  part of the sources at hand.  The spec has response bytes appended to the buffer in
  order.\<close>

definition append_body :: "DefaultMemchunks \<Rightarrow> bytes \<Rightarrow> DefaultMemchunks" where
  "append_body body data = body\<lparr>content := content body @ data\<rparr>"

text \<open>Modelled from the spec: \<open>FieldStore::add_header_token\<close>
  (\<open>shrpx_downstream.cc\<close>) is not part of the sources at hand.  The spec bounds the
  total header bytes and the number of fields of a request: a stored field adds the
  lengths of its name and value to the one and counts for the other.\<close>

definition add_header_token ::
  "FieldStore \<Rightarrow> string \<Rightarrow> string \<Rightarrow> bool \<Rightarrow> token \<Rightarrow> FieldStore" where
  "add_header_token fs name val no_index tok =
     fs\<lparr>headers := headers fs
            @ [\<lparr>hd_name = name, hd_value = val, hd_token = tok, hd_no_index = no_index\<rparr>],
        buffer_size := buffer_size fs + length name + length val\<rparr>"

text \<open>Modelled from the spec: \<open>FieldStore::add_trailer_token\<close>
  (\<open>shrpx_downstream.cc\<close>) is not part of the sources at hand.  In the spec trailer
  fields fall under the same two bounds as header fields.\<close>

definition add_trailer_token ::
  "FieldStore \<Rightarrow> string \<Rightarrow> string \<Rightarrow> bool \<Rightarrow> token \<Rightarrow> FieldStore" where
  "add_trailer_token fs name val no_index tok =
     fs\<lparr>trailers := trailers fs
            @ [\<lparr>hd_name = name, hd_value = val, hd_token = tok, hd_no_index = no_index\<rparr>],
        buffer_size := buffer_size fs + length name + length val\<rparr>"

text \<open>Modelled from the spec: \<open>FieldStore::header\<close> (\<open>shrpx_downstream.cc\<close>) is not
  part of the sources at hand.  The spec has the \<open>via\<close> field of the response extended
  by one hop and the \<open>server\<close> field of the response passed on; the lookup takes the
  last field that carries the token, if there is one.\<close>

definition header :: "FieldStore \<Rightarrow> token \<Rightarrow> HeaderRef option" where
  "header fs tok = find (\<lambda>kv. hd_token kv = tok) (rev (headers fs))"

text \<open>\<open>Http3Upstream::error_reply\<close>.\<close>

definition error_reply ::
  "env \<Rightarrow> Config \<Rightarrow> Downstream \<Rightarrow> nat \<Rightarrow> int \<times> Downstream \<times> call list" where
  "error_reply e config downstream status_code =
     (let html = create_error_html e status_code;
          downstream' = downstream
            \<lparr>response := (response downstream)\<lparr>http_status := status_code\<rparr>,
             get_response_buf := append_body (get_response_buf downstream) html,
             get_response_state := MSG_COMPLETE\<rparr>;
          sid = get_stream_id downstream;
          nva = [('':status'', stringify_status e status_code),
                 (''content-type'', ''text/html; charset=UTF-8''),
                 (''server'', server_name config),
                 (''content-length'', make_string_ref_uint e (length html)),
                 (''date'', time_http e)];
          c = nghttp3_conn_submit_response sid nva True
      in if nghttp3_err_is_fatal e (ret e c) then (-1, downstream', [update_tstamp, c])
         else
           let (rv, cs) = shutdown_stream_read e sid NGHTTP3_H3_NO_ERROR
           in if rv \<noteq> 0
              then (-1, downstream', [update_tstamp, c, reset_upstream_wtimer sid] @ cs)
              else (0, downstream', [update_tstamp, c, reset_upstream_wtimer sid] @ cs))"

text \<open>The test at the head of \<open>Http3Upstream::http_recv_request_header\<close>: the field
  would take the header bytes over \<open>request_header_field_buffer\<close>, or the number of
  fields has reached \<open>max_request_header_fields\<close>.\<close>

definition too_large_or_many :: "Config \<Rightarrow> Downstream \<Rightarrow> string \<Rightarrow> string \<Rightarrow> bool" where
  "too_large_or_many config downstream name val =
     (buffer_size (req_fs (request downstream)) + length name + length val
        > request_header_field_buffer config
      \<or> num_fields (req_fs (request downstream)) \<ge> max_request_header_fields config)"

text \<open>\<open>Http3Upstream::http_recv_request_header\<close>; \<open>never_index\<close> is
  \<open>flags & NGHTTP3_NV_FLAG_NEVER_INDEX\<close>.\<close>

definition http_recv_request_header ::
  "env \<Rightarrow> Config \<Rightarrow> Downstream \<Rightarrow> string \<Rightarrow> string \<Rightarrow> bool \<Rightarrow> bool
     \<Rightarrow> int \<times> Downstream \<times> call list" where
  "http_recv_request_header e config downstream name val never_index trailer =
     (if too_large_or_many config downstream name val then
        let downstream' = downstream\<lparr>get_stop_reading := True\<rparr>
        in if get_response_state downstream' = MSG_COMPLETE then (0, downstream', [])
           else if trailer then (0, downstream', [])
           else
             let (rv, downstream'', cs) = error_reply e config downstream' 431
             in if rv \<noteq> 0 then (-1, downstream'', cs) else (0, downstream'', cs)
      else
        let tok = lookup_token e name;
            req = request downstream;
            downstream' = downstream\<lparr>rcbufs := rcbufs downstream @ [name, val]\<rparr>
        in if trailer
           then (0, downstream'\<lparr>request :=
                       req\<lparr>req_fs := add_trailer_token (req_fs req) name val never_index tok\<rparr>\<rparr>,
                 [])
           else (0, downstream'\<lparr>request :=
                       req\<lparr>req_fs := add_header_token (req_fs req) name val never_index tok\<rparr>\<rparr>,
                 []))"

text \<open>The callbacks registered with the HTTP/3 layer for a header field, a trailer field
  and the end of the header block.  \<open>stream_user_data\<close> is the downstream of the
  stream, if any.  The last one calls \<open>Http3Upstream::http_end_request_headers\<close>, the
  method that finalises the request and starts the downstream; it is the parameter
  \<open>end_request_headers\<close> here.\<close>

definition http_recv_request_header_cb ::
  "env \<Rightarrow> Config \<Rightarrow> Downstream option \<Rightarrow> string \<Rightarrow> string \<Rightarrow> bool
     \<Rightarrow> int \<times> Downstream option \<times> call list" where
  "http_recv_request_header_cb e config stream_user_data name val never_index =
     (case stream_user_data of
        None \<Rightarrow> (0, None, [])
      | Some downstream \<Rightarrow>
          if get_stop_reading downstream then (0, Some downstream, [])
          else
            let (rv, downstream', cs) =
                  http_recv_request_header e config downstream name val never_index False
            in if rv \<noteq> 0 then (NGHTTP3_ERR_CALLBACK_FAILURE e, Some downstream', cs)
               else (0, Some downstream', cs))"

definition http_recv_request_trailer_cb ::
  "env \<Rightarrow> Config \<Rightarrow> Downstream option \<Rightarrow> string \<Rightarrow> string \<Rightarrow> bool
     \<Rightarrow> int \<times> Downstream option \<times> call list" where
  "http_recv_request_trailer_cb e config stream_user_data name val never_index =
     (case stream_user_data of
        None \<Rightarrow> (0, None, [])
      | Some downstream \<Rightarrow>
          if get_stop_reading downstream then (0, Some downstream, [])
          else
            let (rv, downstream', cs) =
                  http_recv_request_header e config downstream name val never_index True
            in if rv \<noteq> 0 then (NGHTTP3_ERR_CALLBACK_FAILURE e, Some downstream', cs)
               else (0, Some downstream', cs))"

definition http_end_request_headers_cb ::
  "env \<Rightarrow> (Downstream \<Rightarrow> bool \<Rightarrow> int \<times> Downstream \<times> call list) \<Rightarrow> Downstream option \<Rightarrow> bool
     \<Rightarrow> int \<times> Downstream option \<times> call list" where
  "http_end_request_headers_cb e end_request_headers stream_user_data fin =
     (case stream_user_data of
        None \<Rightarrow> (0, None, [])
      | Some downstream \<Rightarrow>
          if get_stop_reading downstream then (0, Some downstream, [])
          else
            let (rv, downstream', cs) = end_request_headers downstream fin
            in if rv \<noteq> 0 then (NGHTTP3_ERR_CALLBACK_FAILURE e, Some downstream', cs)
               else (0, Some downstream',
                     cs @ [reset_upstream_rtimer (get_stream_id downstream'), stop_read_timer]))"

text \<open>A trace in which a downstream connection is requested for the stream.\<close>

definition downstream_attempted :: "stream_id \<Rightarrow> call list \<Rightarrow> bool" where
  "downstream_attempted sid cs = (get_downstream_connection sid \<in> set cs)"

section \<open>Response header\<close>

text \<open>The strip flags of \<open>http2::HeaderBuildOp\<close> that the response path uses; a flag
  word is the set of the flags in it.\<close>

datatype hdop =
    HDOP_STRIP_FORWARDED
  | HDOP_STRIP_X_FORWARDED_FOR
  | HDOP_STRIP_X_FORWARDED_PROTO
  | HDOP_STRIP_VIA
  | HDOP_STRIP_EARLY_DATA
  | HDOP_STRIP_SEC_WEBSOCKET_ACCEPT

text \<open>Modelled from the spec: \<open>HDOP_STRIP_ALL\<close> (\<open>http2.h\<close>) is not part of the
  sources at hand.  The spec names the policy of the response path ``strip all except
  via'', and has \<open>sec-websocket-accept\<close> stripped only for a WebSocket upgrade: the
  flag for it is not among ``all''.\<close>

definition HDOP_STRIP_ALL :: "hdop set" where
  "HDOP_STRIP_ALL =
     {HDOP_STRIP_FORWARDED, HDOP_STRIP_X_FORWARDED_FOR, HDOP_STRIP_X_FORWARDED_PROTO,
      HDOP_STRIP_VIA, HDOP_STRIP_EARLY_DATA}"

text \<open>Modelled from the spec: the field selection of
  \<open>http3::copy_headers_to_nva_nocopy\<close> (\<open>http3.cc\<close>) is not part of the sources at
  hand.  A strip flag removes every field of the token it names.\<close>

fun stripped :: "hdop set \<Rightarrow> token \<Rightarrow> bool" where
  "stripped flags HD_EARLY_DATA = (HDOP_STRIP_EARLY_DATA \<in> flags)"
| "stripped flags HD_FORWARDED = (HDOP_STRIP_FORWARDED \<in> flags)"
| "stripped flags HD_SEC_WEBSOCKET_ACCEPT = (HDOP_STRIP_SEC_WEBSOCKET_ACCEPT \<in> flags)"
| "stripped flags HD_VIA = (HDOP_STRIP_VIA \<in> flags)"
| "stripped flags HD_X_FORWARDED_FOR = (HDOP_STRIP_X_FORWARDED_FOR \<in> flags)"
| "stripped flags HD_X_FORWARDED_PROTO = (HDOP_STRIP_X_FORWARDED_PROTO \<in> flags)"
| "stripped flags HD_SERVER = False"
| "stripped flags (HD_other n) = False"

text \<open>Modelled from the spec: \<open>http3::copy_headers_to_nva_nocopy\<close> (\<open>http3.cc\<close>) is
  not part of the sources at hand.  The fields that no flag strips are copied in
  order, name and value.  What else the helper leaves out is not in the spec and is
  not modelled.\<close>

definition copy_headers_to_nva_nocopy :: "hdop set \<Rightarrow> HeaderRef list \<Rightarrow> nv list" where
  "copy_headers_to_nva_nocopy flags hs =
     map (\<lambda>kv. (hd_name kv, hd_value kv))
       (filter (\<lambda>kv. \<not> stripped flags (hd_token kv)) hs)"

text \<open>The head of \<open>Http3Upstream::on_downstream_header_complete\<close>: the \<open>location\<close>
  rewrite, and, in a build with mruby, the response hooks of a final response (the
  backend group's, if there is a group, then the worker's).  A hook returns its status
  and the downstream as it leaves it.  \<open>Inl\<close> is the early \<open>return -1\<close>.\<close>

definition rewrite_location :: "env \<Rightarrow> Config \<Rightarrow> Downstream \<Rightarrow> Downstream" where
  "rewrite_location e config downstream =
     (if \<not> http2_proxy config \<and> \<not> no_location_rewrite config
      then
        let resp = response downstream; fs = resp_fs resp
        in downstream\<lparr>response := resp\<lparr>resp_fs := fs\<lparr>headers :=
             rewrite_location_response_header e (scheme (request downstream)) (headers fs)\<rparr>\<rparr>\<rparr>
      else downstream)"

fun run_on_response_procs ::
  "env \<Rightarrow> Config \<Rightarrow> (Downstream \<Rightarrow> int \<times> Downstream) list \<Rightarrow> Downstream \<Rightarrow> call list
     \<Rightarrow> (Downstream \<times> call list) + (Downstream \<times> call list)" where
  "run_on_response_procs e config [] downstream cs = Inr (downstream, cs)"
| "run_on_response_procs e config (run_on_response_proc # procs) downstream cs =
     (let (rv, downstream') = run_on_response_proc downstream
      in if rv \<noteq> 0 then
           let (r, downstream'', cs') = error_reply e config downstream' 500
           in Inl (downstream'', cs @ cs')
         else if get_response_state downstream' = MSG_COMPLETE then Inl (downstream', cs)
         else run_on_response_procs e config procs downstream' cs)"

definition before_response_nva ::
  "env \<Rightarrow> Config \<Rightarrow> (Downstream \<Rightarrow> int \<times> Downstream) list option \<Rightarrow> Downstream
     \<Rightarrow> (Downstream \<times> call list) + (Downstream \<times> call list)" where
  "before_response_nva e config mruby downstream =
     (let downstream' = rewrite_location e config downstream
      in case mruby of
           None \<Rightarrow> Inr (downstream', [])
         | Some procs \<Rightarrow>
             if \<not> get_non_final_response downstream'
             then run_on_response_procs e config procs downstream' []
             else Inr (downstream', []))"

text \<open>The header fields that follow the copied ones in a final response: \<open>server\<close>,
  the affinity cookie, \<open>via\<close> and the configured additions.\<close>

definition response_headers_tail :: "env \<Rightarrow> Config \<Rightarrow> Downstream \<Rightarrow> fault + nv list" where
  "response_headers_tail e config downstream =
     (let req = request downstream;
          resp = response downstream;
          server =
            (if \<not> http2_proxy config \<and> \<not> no_server_rewrite config
             then [(''server'', server_name config)]
             else case header (resp_fs resp) HD_SERVER of
                    Some kv \<Rightarrow> [(''server'', hd_value kv)]
                  | None \<Rightarrow> []);
          via = header (resp_fs resp) HD_VIA;
          via_nv =
            (if no_via config
             then (case via of Some kv \<Rightarrow> [(''via'', hd_value kv)] | None \<Rightarrow> [])
             else [(''via'',
                    (case via of Some kv \<Rightarrow> hd_value kv @ '', '' | None \<Rightarrow> [])
                    @ create_via_header_value e (http_major resp) (http_minor resp))])
      in if (\<not> regular_connect_method req \<or> \<not> get_upgraded downstream)
            \<and> get_affinity_cookie_to_send downstream \<noteq> 0
         then
           if \<not> dconn downstream then Inl AssertionFailure
           else Inr (server
                     @ [(''set-cookie'',
                         create_affinity_cookie e (get_affinity_cookie_to_send downstream)
                           (scheme req))]
                     @ via_nv @ add_response_headers config)
         else Inr (server @ via_nv @ add_response_headers config))"

text \<open>\<open>Http3Upstream::on_downstream_header_complete\<close>.  \<open>mruby\<close> is \<open>None\<close> in a
  build without mruby and the list of response hooks otherwise.\<close>

definition on_downstream_header_complete ::
  "env \<Rightarrow> Config \<Rightarrow> (Downstream \<Rightarrow> int \<times> Downstream) list option \<Rightarrow> Downstream
     \<Rightarrow> fault + (int \<times> Downstream \<times> call list)" where
  "on_downstream_header_complete e config mruby downstream =
     (case before_response_nva e config mruby downstream of
        Inl (downstream', cs) \<Rightarrow> Inr (-1, downstream', cs)
      | Inr (downstream', cs) \<Rightarrow>
          let req = request downstream';
              resp = response downstream';
              sid = get_stream_id downstream'
          in if get_non_final_response downstream' then
               let response_status = stringify_status e (http_status resp);
                   nva = ('':status'', response_status)
                         # copy_headers_to_nva_nocopy HDOP_STRIP_ALL (headers (resp_fs resp));
                   c = nghttp3_conn_submit_info sid nva;
                   downstream'' = downstream'
                     \<lparr>response := resp\<lparr>resp_fs := (resp_fs resp)\<lparr>headers := []\<rparr>\<rparr>\<rparr>
               in if ret e c \<noteq> 0 then Inr (-1, downstream'', cs @ [c])
                  else Inr (0, downstream'', cs @ [c])
             else
               let websocket_upgrade =
                     (connect_proto req = WEBSOCKET \<and> http_status resp = 101);
                   response_status =
                     (if websocket_upgrade then stringify_status e 200
                      else stringify_status e (http_status resp));
                   striphd_flags =
                     (if websocket_upgrade
                      then insert HDOP_STRIP_SEC_WEBSOCKET_ACCEPT
                             (HDOP_STRIP_ALL - {HDOP_STRIP_VIA})
                      else HDOP_STRIP_ALL - {HDOP_STRIP_VIA});
                   nva0 = ('':status'', response_status)
                          # copy_headers_to_nva_nocopy striphd_flags (headers (resp_fs resp))
               in (case response_headers_tail e config downstream' of
                    Inl f \<Rightarrow> Inl f
                  | Inr tail \<Rightarrow>
                      let nva = nva0 @ tail;
                          data_read = (expect_response_body downstream'
                                       \<or> expect_response_trailer downstream');
                          c = nghttp3_conn_submit_response sid nva data_read
                      in if ret e c \<noteq> 0 then Inr (-1, downstream', cs @ [c])
                         else if data_read
                           then Inr (0, downstream', cs @ [c, reset_upstream_wtimer sid])
                         else
                           let (rv, cs') = shutdown_stream_read e sid NGHTTP3_H3_NO_ERROR
                           in if rv \<noteq> 0 then Inr (-1, downstream', cs @ c # cs')
                              else Inr (0, downstream', cs @ c # cs')))"

text \<open>Sample values for the concrete instances below: an environment in which every
  call succeeds and a CONNECTION\_CLOSE packet is three bytes long, the upstream as its constructor leaves it, and a transport.\<close>

definition sample_env :: env where
  "sample_env =
     \<lparr>ret = (\<lambda>c. case c of
                    ngtcp2_conn_write_connection_close error_code \<Rightarrow> 3
                  | ngtcp2_conn_write_application_close error_code \<Rightarrow> 3
                  | _ \<Rightarrow> 0),
      ngtcp2_err_is_fatal = (\<lambda>rv. rv < -500),
      nghttp3_err_is_fatal = (\<lambda>rv. rv < -900),
      NGTCP2_MAX_UDP_PAYLOAD_SIZE = 1200,
      SHRPX_QUIC_CONN_CLOSE_PKTLEN = 256,
      NGTCP2_CONNECTION_REFUSED = 2,
      NGHTTP3_ERR_CALLBACK_FAILURE = -902,
      ngtcp2_err_infer_quic_transport_error_code = (\<lambda>rv. 1),
      nghttp3_err_infer_quic_app_error_code = (\<lambda>rv. 258),
      generate_token = (\<lambda>addr secret. Some (addr @ secret)),
      create_error_html = (\<lambda>status. [60, 104, 49, 62]),
      stringify_status = (\<lambda>status. if status = 101 then ''101'' else
                            if status = 200 then ''200'' else
                            if status = 204 then ''204'' else
                            if status = 431 then ''431'' else ''500''),
      make_string_ref_uint = (\<lambda>n. ''4''),
      lookup_token = (\<lambda>name. HD_other (-1)),
      rewrite_location_response_header = (\<lambda>scheme hs. hs),
      create_affinity_cookie = (\<lambda>cookie scheme. ''nghttpxlb=1''),
      create_via_header_value = (\<lambda>major minor. ''2 nghttpx''),
      drain_mark = (\<lambda>body count.
                      let n = min count (length (content body))
                      in (n, body\<lparr>content := drop n (content body), mark := mark body - n\<rparr>)),
      time_http = ''Tue, 03 Nov 2026 00:00:00 GMT''\<rparr>"

definition sample_upstream :: Upstream where
  "sample_upstream =
     \<lparr>max_udp_payload_size = 1452, qlog_fd = -1, hashed_scid = [], tls_alert = 0,
      httpconn = False, idle_close = False, retry_close = False,
      last_error = \<lparr>etype = Transport, code = 0\<rparr>, conn_close = [],
      downstream_queue = [], idle_timer_repeat = 30000000000,
      shutdown_timer_active = False, shutdown_timer_after = 0, prep_active = True\<rparr>"

definition sample_conn :: ngtcp2_conn where
  "sample_conn =
     \<lparr>in_closing_period = False, idle_expiry = 30000000000, pto = 1000000,
      path_max_udp_payload_size = 1200, send_quantum = 131072,
      path_remote_addr = [192, 0, 2, 1], close_packet = [1, 2, 3]\<rparr>"

definition sample_packet :: "nat \<Rightarrow> bytes" where
  "sample_packet n = replicate n 0"

definition sample_config :: Config where
  "sample_config =
     \<lparr>http2_proxy = False, no_location_rewrite = False, no_server_rewrite = False,
      no_via = False, server_name = ''nghttpx'', add_response_headers = [],
      request_header_field_buffer = 65536, max_request_header_fields = 100\<rparr>"

definition sample_loop_state :: loop_state where
  "sample_loop_state = \<lparr>upstream = sample_upstream, handler_deleted = False, trace = []\<rparr>"

definition sample_downstream :: Downstream where
  "sample_downstream =
     \<lparr>get_stream_id = 0,
      request = \<lparr>req_fs = \<lparr>headers = [], trailers = [], buffer_size = 0\<rparr>,
                 connect_proto = WEBSOCKET, regular_connect_method = False,
                 scheme = ''https''\<rparr>,
      response = \<lparr>resp_fs = \<lparr>headers =
                              [\<lparr>hd_name = ''sec-websocket-accept'', hd_value = ''abc'',
                                hd_token = HD_SEC_WEBSOCKET_ACCEPT, hd_no_index = False\<rparr>,
                               \<lparr>hd_name = ''x-backend'', hd_value = ''b1'',
                                hd_token = HD_other (-1), hd_no_index = False\<rparr>],
                             trailers = [], buffer_size = 36\<rparr>,
                  http_status = 101, http_major = 1, http_minor = 1\<rparr>,
      get_request_state = INITIAL, get_response_state = INITIAL,
      get_stop_reading = False,
      get_response_buf = \<lparr>content = [104, 101, 108, 108, 111], mark = 5\<rparr>,
      get_non_final_response = False, get_upgraded = False,
      get_affinity_cookie_to_send = 0,
      expect_response_body = True, expect_response_trailer = False,
      dconn = True, rcbufs = []\<rparr>"

section \<open>Properties\<close>

subsection \<open>Auxiliary facts\<close>

text \<open>\<open>handle_error\<close> has no successful return.\<close>

lemma handle_error_fatal: "fst (handle_error e cn up) = -1"
  by (simp add: handle_error_def Let_def split: prod.splits)

subsection \<open>Flow-control coupling\<close>




subsection \<open>Read path\<close>

text \<open>
  C3, as amended.  \<open>on_read\<close> maps the result of \<open>ngtcp2_conn_read_pkt\<close> to a policy:
  draining and drop return fatal with no further call, so no close packet is written;
  required-transport-param, malformed-transport-param and transport-param errors set
  \<open>last_error_\<close> to \<open>Transport(code)\<close> whatever it was before and go on to
  \<open>handle_error\<close>; retry-requested returns fatal with \<open>last_error_\<close> untouched and
  without \<open>handle_error\<close>, after nothing more than the decoding of version and
  connection ids if that fails, after a \<open>CONNECTION_REFUSED\<close> close if the worker
  is shutting down gracefully, and otherwise after setting \<open>retry_close_\<close> and having
  a Retry sent; any other error sets \<open>Transport(code)\<close> only when the code of
  \<open>last_error_\<close> is zero, then calls \<open>handle_error\<close>, and returns fatal; on success
  the idle timer is reset and 0 is returned.
\<close>

theorem on_read_error_policy:
  "(rv = NGTCP2_ERR_DRAINING \<or> rv = NGTCP2_ERR_DROP_CONN \<longrightarrow>
      on_read e cn g ts up rv data = (-1, up, [ngtcp2_conn_read_pkt data]))
   \<and> (rv = NGTCP2_ERR_REQUIRED_TRANSPORT_PARAM \<or> rv = NGTCP2_ERR_MALFORMED_TRANSPORT_PARAM
        \<or> rv = NGTCP2_ERR_TRANSPORT_PARAM \<longrightarrow>
      on_read e cn g ts up rv data =
        (case handle_error e cn (up\<lparr>last_error := err_transport e rv\<rparr>) of
           (r, up', cs) \<Rightarrow> (-1, up', ngtcp2_conn_read_pkt data # cs)))
   \<and> (rv = NGTCP2_ERR_other n \<longrightarrow>
      on_read e cn g ts up rv data =
        (case handle_error e cn
                (if code (last_error up) = 0 then up\<lparr>last_error := err_transport e rv\<rparr>
                 else up) of
           (r, up', cs) \<Rightarrow> (-1, up', ngtcp2_conn_read_pkt data # cs)))
   \<and> (rv = NGTCP2_ERR_RETRY \<longrightarrow>
      on_read e cn g ts up rv data =
        (if ret e (ngtcp2_pkt_decode_version_cid data) \<noteq> 0
         then (-1, up, [ngtcp2_conn_read_pkt data, ngtcp2_pkt_decode_version_cid data])
         else if g
         then (-1, up, [ngtcp2_conn_read_pkt data, ngtcp2_pkt_decode_version_cid data,
                        send_connection_close (NGTCP2_CONNECTION_REFUSED e)])
         else (-1, up\<lparr>retry_close := True\<rparr>,
               [ngtcp2_conn_read_pkt data, ngtcp2_pkt_decode_version_cid data, send_retry])))
   \<and> (rv = NGTCP2_OK \<longrightarrow>
      on_read e cn g ts up rv data =
        (0, up\<lparr>idle_timer_repeat := (if idle_expiry cn > ts then idle_expiry cn - ts else 1)\<rparr>,
         [ngtcp2_conn_read_pkt data,
          ev_timer_again_idle (if idle_expiry cn > ts then idle_expiry cn - ts else 1)]))"
proof -
  have f: "\<And>u. (case handle_error e cn u of (r, up', cs) \<Rightarrow> (r, up', ngtcp2_conn_read_pkt data # cs))
         = (case handle_error e cn u of (r, up', cs) \<Rightarrow> (-1, up', ngtcp2_conn_read_pkt data # cs))"
    using handle_error_fatal by (auto split: prod.splits) (metis fst_conv)
  show ?thesis
    by (cases rv) (simp_all add: on_read_def Let_def reset_idle_timer_def f)
qed

text \<open>At concrete inputs: draining, success, a transport-param error over an earlier
  application error, another library error over an earlier application error, and
  retry-requested while the worker shuts down.\<close>

theorem on_read_error_policy_witness:
  "on_read sample_env sample_conn False 0 sample_upstream NGTCP2_ERR_DRAINING [9]
     = (-1, sample_upstream, [ngtcp2_conn_read_pkt [9]])
   \<and> on_read sample_env sample_conn False 1000000000 sample_upstream NGTCP2_OK [9]
     = (0, sample_upstream\<lparr>idle_timer_repeat := 29000000000\<rparr>,
        [ngtcp2_conn_read_pkt [9], ev_timer_again_idle 29000000000])
   \<and> fst (snd (on_read sample_env sample_conn False 0
        (sample_upstream\<lparr>last_error := \<lparr>etype = Application, code = 7\<rparr>\<rparr>)
        NGTCP2_ERR_TRANSPORT_PARAM [9]))
      = sample_upstream\<lparr>last_error := \<lparr>etype = Transport, code = 1\<rparr>, conn_close := [1, 2, 3]\<rparr>
   \<and> fst (snd (on_read sample_env sample_conn False 0
        (sample_upstream\<lparr>last_error := \<lparr>etype = Application, code = 7\<rparr>\<rparr>)
        (NGTCP2_ERR_other (- 205)) [9]))
      = sample_upstream\<lparr>last_error := \<lparr>etype = Application, code = 7\<rparr>, conn_close := [1, 2, 3]\<rparr>
   \<and> on_read sample_env sample_conn True 0 sample_upstream NGTCP2_ERR_RETRY [9]
     = (-1, sample_upstream,
        [ngtcp2_conn_read_pkt [9], ngtcp2_pkt_decode_version_cid [9], send_connection_close 2])"
  using on_read_error_policy [of NGTCP2_ERR_DRAINING sample_env sample_conn False 0 sample_upstream "[9]" 0]
    on_read_error_policy [of NGTCP2_OK sample_env sample_conn False 1000000000 sample_upstream "[9]" 0]
    on_read_error_policy [of NGTCP2_ERR_TRANSPORT_PARAM sample_env sample_conn False 0
       "sample_upstream\<lparr>last_error := \<lparr>etype = Application, code = 7\<rparr>\<rparr>" "[9]" 0]
    on_read_error_policy [of "NGTCP2_ERR_other (- 205)" sample_env sample_conn False 0
       "sample_upstream\<lparr>last_error := \<lparr>etype = Application, code = 7\<rparr>\<rparr>" "[9]" "- 205"]
    on_read_error_policy [of NGTCP2_ERR_RETRY sample_env sample_conn True 0 sample_upstream "[9]" 0]
  by (simp add: sample_env_def sample_upstream_def sample_conn_def
        handle_error_def send_packet_def err_transport_def resize_def Let_def)

text \<open>The claim as first stated lets ``any other error'' cover retry-requested.  For it
  \<open>on_read\<close> neither sets \<open>last_error_\<close>, although its code is zero, nor calls
  \<open>handle_error\<close>: it marks the upstream \<open>retry_close_\<close> and has a Retry sent.\<close>

theorem on_read_error_policy_counterexample:
  "on_read sample_env sample_conn False 0 sample_upstream NGTCP2_ERR_RETRY [9]
     = (-1, sample_upstream\<lparr>retry_close := True\<rparr>,
        [ngtcp2_conn_read_pkt [9], ngtcp2_pkt_decode_version_cid [9], send_retry])
   \<and> code (last_error sample_upstream) = 0
   \<and> on_read sample_env sample_conn False 0 sample_upstream NGTCP2_ERR_RETRY [9]
     \<noteq> (case handle_error sample_env sample_conn
                (sample_upstream\<lparr>last_error := err_transport sample_env NGTCP2_ERR_RETRY\<rparr>) of
           (r, up', cs) \<Rightarrow> (-1, up', ngtcp2_conn_read_pkt [9] # cs))"
  by (simp add: on_read_def Let_def sample_env_def sample_upstream_def sample_conn_def
        handle_error_def send_packet_def err_transport_def resize_def)

subsection \<open>Request body\<close>

text \<open>
  C6.  For every request-body chunk delivered to \<open>http_recv_data\<close>, if forwarding the
  chunk to the downstream fails, the stream is shut down with \<open>H3_INTERNAL_ERROR\<close>
  unless the response is already complete, and the chunk's length is then credited to
  the stream-level and to the connection-level flow-control window through
  \<open>consume\<close>; the callback returns 0.
\<close>

theorem http_recv_data_error_credits:
  "ret e (push_upload_data_chunk (get_stream_id d) (length data)) \<noteq> 0 \<Longrightarrow>
   http_recv_data e d data =
     (0, [reset_upstream_rtimer (get_stream_id d),
          push_upload_data_chunk (get_stream_id d) (length data)]
         @ (if get_response_state d \<noteq> MSG_COMPLETE
            then [ngtcp2_conn_shutdown_stream (get_stream_id d) NGHTTP3_H3_INTERNAL_ERROR]
            else [])
         @ [ngtcp2_conn_extend_max_stream_offset (get_stream_id d) (length data),
            ngtcp2_conn_extend_max_offset (length data)])"
  by (simp add: http_recv_data_def shutdown_stream_def consume_def Let_def)

theorem http_recv_data_error_credits_witness:
  "ret (sample_env\<lparr>ret := (\<lambda>c. - 1)\<rparr>) (push_upload_data_chunk 0 3) \<noteq> 0
   \<and> http_recv_data (sample_env\<lparr>ret := (\<lambda>c. - 1)\<rparr>) sample_downstream [1, 2, 3] =
     (0, [reset_upstream_rtimer 0, push_upload_data_chunk 0 3,
          ngtcp2_conn_shutdown_stream 0 NGHTTP3_H3_INTERNAL_ERROR,
          ngtcp2_conn_extend_max_stream_offset 0 3, ngtcp2_conn_extend_max_offset 3])"
  using http_recv_data_error_credits
          [of "sample_env\<lparr>ret := (\<lambda>c. - 1)\<rparr>" sample_downstream "[1, 2, 3]"]
  by (simp add: sample_env_def sample_downstream_def)

subsection \<open>Packet pacing\<close>

text \<open>The loop keeps \<open>burst_inv\<close>, and every return satisfies \<open>burst_ok\<close>.\<close>

lemma sent_data_append: "sent_data (xs @ ys) = sent_data xs @ sent_data ys"
  by (simp add: sent_data_def)

lemma sent_data_simps:
  "sent_data [] = []"
  "sent_data (quic_send_packet data g # cs) = data @ sent_data cs"
  "sent_data (ngtcp2_conn_writev_stream sid f # cs) = sent_data cs"
  "sent_data (nghttp3_conn_writev_stream # cs) = sent_data cs"
  "sent_data (nghttp3_conn_block_stream sid # cs) = sent_data cs"
  "sent_data (nghttp3_conn_shutdown_stream_write sid # cs) = sent_data cs"
  "sent_data (nghttp3_conn_add_write_offset sid k # cs) = sent_data cs"
  "sent_data (ngtcp2_conn_update_pkt_tx_time t # cs) = sent_data cs"
  "sent_data (wlimit_stopw # cs) = sent_data cs"
  "sent_data (signal_write # cs) = sent_data cs"
  "sent_data (ev_timer_again_idle r # cs) = sent_data cs"
  by (simp_all add: sent_data_def)

lemma send_packet_calls:
  "send_packet e up data g = (r, up', cs) \<Longrightarrow> cs = [quic_send_packet data g]"
  by (auto simp add: send_packet_def Let_def split: if_splits)

lemma reset_idle_timer_calls:
  "reset_idle_timer cn now up = (up', cs) \<Longrightarrow> sent_data cs = []"
  by (auto simp add: reset_idle_timer_def Let_def sent_data_simps)

lemma handle_error_rv: "handle_error e cn up = (r, up', cs) \<Longrightarrow> r = -1"
  by (auto simp add: handle_error_def Let_def split: if_splits prod.splits)

lemma burst_ok_Inl [simp]: "burst_ok n (Inl f)"
  by (simp add: burst_ok_def)

lemma burst_ok_Inr [simp]:
  "burst_ok n (Inr (rv, up', cs, pkts)) \<longleftrightarrow>
     length pkts \<le> n \<and> (rv = 0 \<longrightarrow> sent_data cs = concat pkts)"
  by (simp add: burst_ok_def)

lemma fail_ok:
  "length pkts < n \<Longrightarrow> burst_ok n (write_streams_fail e cn up cs pkts)"
  by (auto simp add: burst_ok_def write_streams_fail_def dest: handle_error_rv split: prod.splits)

lemma burst_inv_calls:
  "burst_inv n l cs \<Longrightarrow> sent_data cs' = [] \<Longrightarrow> burst_inv n l (cs @ cs')"
  by (simp add: burst_inv_def sent_data_append)

lemma h3_step:
  "burst_inv n l cs \<Longrightarrow> sent_data [c] = [] \<Longrightarrow>
   (case write_streams_h3 e cn up l cs c rv of
      Done r \<Rightarrow> burst_ok n r
    | Next up' l' cs'' \<Rightarrow> up' = up \<and> l' = l \<and> burst_inv n l' cs'')"
  by (auto simp add: write_streams_h3_def burst_inv_def sent_data_append intro!: fail_ok)

lemma flush_ok:
  "length pkts \<le> n \<Longrightarrow> sent_data cs @ data = concat pkts \<Longrightarrow>
   burst_ok n (write_streams_flush e cn ts now g up data cs pkts)"
  by (auto simp add: burst_ok_def write_streams_flush_def sent_data_append sent_data_simps
        dest!: send_packet_calls reset_idle_timer_calls split: prod.splits)

lemma packet_step:
  "burst_inv n l cs \<Longrightarrow> n < 2 ^ 64 \<Longrightarrow>
   (case write_streams_packet e cn seg ts now P n it pkt up l cs of
      Done r \<Rightarrow> burst_ok n r
    | Next up' l' cs'' \<Rightarrow> burst_inv n l' cs'')"
  unfolding write_streams_packet_def Let_def
  by (auto simp add: burst_inv_def sent_data_append sent_data_simps flush_ok
        dest!: send_packet_calls reset_idle_timer_calls split: prod.splits)

lemma written_step:
  "burst_inv n l cs \<Longrightarrow> n < 2 ^ 64 \<Longrightarrow>
   (case write_streams_written e cn seg ts now P n it sid up l cs of
      Done r \<Rightarrow> burst_ok n r
    | Next up' l' cs'' \<Rightarrow> burst_inv n l' cs'')"
proof -
  assume inv: "burst_inv n l cs" and n: "n < 2 ^ 64"
  have len: "length (packets l) < n"
    using inv by (simp add: burst_inv_def)
  have h3s: "\<And>c. sent_data [c] = [] \<Longrightarrow>
               (case write_streams_h3 e cn up l cs c (it_rv it) of
                  Done r \<Rightarrow> burst_ok n r
                | Next up' l' cs'' \<Rightarrow> up' = up \<and> l' = l \<and> burst_inv n l' cs'')"
    using inv by (rule h3_step)
  show ?thesis
  proof (cases "it_nwrite it")
    case (NWRITE pkt)
    show ?thesis
    proof (cases "it_ndatalen it \<ge> 0")
      case True
      show ?thesis
      proof (cases "write_streams_h3 e cn up l cs
                      (nghttp3_conn_add_write_offset sid (nat (it_ndatalen it))) (it_rv it)")
        case (Done r)
        with h3s [of "nghttp3_conn_add_write_offset sid (nat (it_ndatalen it))"]
        show ?thesis
          unfolding write_streams_written_def
          using NWRITE True by (simp add: sent_data_simps)
      next
        case (Next up' l' cs')
        with h3s [of "nghttp3_conn_add_write_offset sid (nat (it_ndatalen it))"]
        have "burst_inv n l' cs'"
          by (auto simp add: sent_data_simps)
        from packet_step [OF this n, of e cn seg ts now P it pkt up']
        show ?thesis
          unfolding write_streams_written_def
          using NWRITE True Next by simp
      qed
    next
      case False
      show ?thesis
        unfolding write_streams_written_def
        using NWRITE False n inv packet_step [of n l cs e cn seg ts now P it pkt up]
        by (auto split: write_step.splits)
    qed
  next
    case NGTCP2_ERR_STREAM_DATA_BLOCKED
    from h3s [of "nghttp3_conn_block_stream sid"]
    show ?thesis
      unfolding write_streams_written_def
      using NGTCP2_ERR_STREAM_DATA_BLOCKED
      by (auto simp add: sent_data_simps split: write_step.splits)
  next
    case NGTCP2_ERR_STREAM_SHUT_WR
    from h3s [of "nghttp3_conn_shutdown_stream_write sid"]
    show ?thesis
      unfolding write_streams_written_def
      using NGTCP2_ERR_STREAM_SHUT_WR
      by (auto simp add: sent_data_simps split: write_step.splits)
  next
    case NGTCP2_ERR_WRITE_MORE
    from h3s [of "nghttp3_conn_add_write_offset sid (nat (it_ndatalen it))"]
    show ?thesis
      unfolding write_streams_written_def
      using NGTCP2_ERR_WRITE_MORE
      by (auto simp add: sent_data_simps split: write_step.splits)
  next
    case (NGTCP2_ERR_writev liberr)
    show ?thesis
      unfolding write_streams_written_def
      using NGTCP2_ERR_writev len
      by (auto simp add: fail_ok)
  qed
qed

lemma iteration_step:
  "burst_inv n l cs \<Longrightarrow> n < 2 ^ 64 \<Longrightarrow>
   (case write_streams_iteration e cn seg ts now P n it up l cs of
      Done r \<Rightarrow> burst_ok n r
    | Next up' l' cs'' \<Rightarrow> burst_inv n l' cs'')"
proof -
  assume inv: "burst_inv n l cs" and n: "n < 2 ^ 64"
  have len: "length (packets l) < n"
    using inv by (simp add: burst_inv_def)
  have "\<And>sid f. burst_inv n l (cs @ [ngtcp2_conn_writev_stream sid f])"
    using inv by (simp add: burst_inv_calls sent_data_simps)
  moreover have "\<And>sid f. burst_inv n l
                   (cs @ [nghttp3_conn_writev_stream] @ [ngtcp2_conn_writev_stream sid f])"
    using inv by (simp add: burst_inv_calls sent_data_simps)
  ultimately show ?thesis
    unfolding write_streams_iteration_def Let_def
    using len n by (simp add: fail_ok written_step)
qed

lemma loop_bound:
  "burst_inv n l cs \<Longrightarrow> n < 2 ^ 64 \<Longrightarrow>
   write_streams_loop e cn seg ts now P n its up l cs = Some r \<Longrightarrow> burst_ok n r"
proof (induction its arbitrary: up l cs)
  case Nil
  then show ?case by simp
next
  case (Cons it its)
  from iteration_step [OF Cons.prems(1) Cons.prems(2), of e cn seg ts now P it up]
  show ?case
    using Cons.prems(3) Cons.IH Cons.prems(2)
    by (auto split: write_step.splits)
qed

lemma packet_turn_gso:
  assumes "pkt \<noteq> []" and "length (buffered l) + length pkt \<le> 65536"
    and "pktcnt l = 0 \<or> prev_ps l = p \<and> prev_pi l = c"
  shows "write_streams_iteration e cn True ts now P n (packet_turn p c pkt) up l cs =
     (if (pktcnt l + 1) mod 2 ^ 64 = n \<or> length pkt < P
      then Done (write_streams_flush e cn ts now P up (buffered l @ pkt)
                   (cs @ [ngtcp2_conn_writev_stream (-1) False]) (packets l @ [pkt]))
      else Next up (l\<lparr>buffered := buffered l @ pkt, pktcnt := (pktcnt l + 1) mod 2 ^ 64,
                      prev_ps := p, prev_pi := c, packets := packets l @ [pkt]\<rparr>)
             (cs @ [ngtcp2_conn_writev_stream (-1) False]))"
  using assms
  by (auto simp add: write_streams_iteration_def write_streams_written_def
        write_streams_packet_def packet_turn_def Let_def)

lemma loop_full_gso:
  "length pkt = P \<Longrightarrow> 0 < P \<Longrightarrow> n < 2 ^ 64 \<Longrightarrow> pktcnt l + Suc m = n \<Longrightarrow>
   length (buffered l) + Suc m * P \<le> 65536 \<Longrightarrow>
   pktcnt l = 0 \<or> prev_ps l = p \<and> prev_pi l = c \<Longrightarrow>
   write_streams_loop e cn True ts now P n (replicate (Suc m) (packet_turn p c pkt) @ rest)
     up l cs =
   Some (write_streams_flush e cn ts now P up (buffered l @ concat (replicate (Suc m) pkt))
           (cs @ replicate (Suc m) (ngtcp2_conn_writev_stream (-1) False))
           (packets l @ replicate (Suc m) pkt))"
proof (induction m arbitrary: l cs)
  case 0
  have "write_streams_iteration e cn True ts now P n (packet_turn p c pkt) up l cs =
          Done (write_streams_flush e cn ts now P up (buffered l @ pkt)
                  (cs @ [ngtcp2_conn_writev_stream (-1) False]) (packets l @ [pkt]))"
    using 0 by (subst packet_turn_gso) auto
  then show ?case
    by simp
next
  case (Suc m)
  let ?l = "l\<lparr>buffered := buffered l @ pkt, pktcnt := (pktcnt l + 1) mod 2 ^ 64,
               prev_ps := p, prev_pi := c, packets := packets l @ [pkt]\<rparr>"
  have k: "(pktcnt l + 1) mod 2 ^ 64 = pktcnt l + 1"
    using Suc.prems by simp
  have step: "write_streams_iteration e cn True ts now P n (packet_turn p c pkt) up l cs =
                Next up ?l (cs @ [ngtcp2_conn_writev_stream (-1) False])"
    using Suc.prems k by (subst packet_turn_gso) auto
  have "write_streams_loop e cn True ts now P n
          (replicate (Suc m) (packet_turn p c pkt) @ rest) up ?l
          (cs @ [ngtcp2_conn_writev_stream (-1) False]) =
        Some (write_streams_flush e cn ts now P up
                (buffered ?l @ concat (replicate (Suc m) pkt))
                ((cs @ [ngtcp2_conn_writev_stream (-1) False])
                   @ replicate (Suc m) (ngtcp2_conn_writev_stream (-1) False))
                (packets ?l @ replicate (Suc m) pkt))"
    using Suc.prems k by (intro Suc.IH) auto
  then show ?case
    using step by simp
qed

lemma packet_turn_nogso:
  assumes "pkt \<noteq> []" and "length pkt \<le> 65536" and "buffered l = []"
    and "n < 2 ^ 64" and "pktcnt l < n"
  shows "\<exists>up' scs.
     write_streams_iteration e cn False ts now P n (packet_turn p c pkt) up l cs =
     (if pktcnt l + 1 = n
      then Done (Inr (0, up', scs, packets l @ [pkt]))
      else Next up' (l\<lparr>pktcnt := pktcnt l + 1, packets := packets l @ [pkt]\<rparr>) scs)"
  using assms
  by (auto simp add: write_streams_iteration_def write_streams_written_def
        write_streams_packet_def packet_turn_def Let_def split: prod.splits)

lemma loop_full_nogso:
  "pkt \<noteq> [] \<Longrightarrow> length pkt \<le> 65536 \<Longrightarrow> n < 2 ^ 64 \<Longrightarrow> buffered l = [] \<Longrightarrow>
   pktcnt l + Suc m = n \<Longrightarrow>
   burst_length (write_streams_loop e cn False ts now P n
                   (replicate (Suc m) (packet_turn p c pkt) @ rest) up l cs) =
   Some (length (packets l) + Suc m)"
proof (induction m arbitrary: l cs up)
  case 0
  from packet_turn_nogso [of pkt l n e cn ts now P p c up cs] 0
  show ?case
    by (auto simp add: burst_length_def)
next
  case (Suc m)
  from packet_turn_nogso [of pkt l n e cn ts now P p c up cs] Suc.prems
  obtain up' scs where
    step: "write_streams_iteration e cn False ts now P n (packet_turn p c pkt) up l cs =
             Next up' (l\<lparr>pktcnt := pktcnt l + 1, packets := packets l @ [pkt]\<rparr>) scs"
    by auto
  have "burst_length (write_streams_loop e cn False ts now P n
          (replicate (Suc m) (packet_turn p c pkt) @ rest) up'
          (l\<lparr>pktcnt := pktcnt l + 1, packets := packets l @ [pkt]\<rparr>) scs) =
        Some (length (packets (l\<lparr>pktcnt := pktcnt l + 1, packets := packets l @ [pkt]\<rparr>))
                + Suc m)"
    using Suc.prems by (intro Suc.IH) auto
  then show ?case
    using step by simp
qed

lemma length_sample_packet: "length (sample_packet n) = n"
  by (simp add: sample_packet_def)

lemma max_pktcnt_facts:
  assumes "write_streams_max_pktcnt cc cn up = Inr n"
  shows "n = (if cc = NGTCP2_CC_ALGO_BBR
        then min 65536 (send_quantum cn) div write_streams_max_udp_payload_size cn up
        else min (min 65536 (send_quantum cn) div write_streams_max_udp_payload_size cn up) 10)"
    and "0 < write_streams_max_udp_payload_size cn up"
    and "n * write_streams_max_udp_payload_size cn up \<le> 65536"
proof -
  define P where "P = write_streams_max_udp_payload_size cn up"
  define Q :: nat where "Q = min 65536 (send_quantum cn)"
  show P: "0 < write_streams_max_udp_payload_size cn up"
    using assms by (auto simp add: write_streams_max_pktcnt_def Let_def split: if_splits)
  show n: "n = (if cc = NGTCP2_CC_ALGO_BBR
        then min 65536 (send_quantum cn) div write_streams_max_udp_payload_size cn up
        else min (min 65536 (send_quantum cn) div write_streams_max_udp_payload_size cn up) 10)"
    using assms by (auto simp add: write_streams_max_pktcnt_def Let_def split: if_splits)
  have "n \<le> Q div P"
    unfolding Q_def P_def by (subst n) simp
  then have "n * P \<le> (Q div P) * P"
    by (rule mult_le_mono1)
  also have "\<dots> \<le> Q"
    by (rule div_times_less_eq_dividend)
  also have "Q \<le> 65536"
    by (simp add: Q_def)
  finally show "n * write_streams_max_udp_payload_size cn up \<le> 65536"
    by (simp add: P_def)
qed

lemma burst_inv_init:
  "1 \<le> n \<Longrightarrow>
   burst_inv n \<lparr>buffered = [], pktcnt = 0, prev_ps = 0, prev_pi = 0, packets = []\<rparr> []"
  by (simp add: burst_inv_def sent_data_simps)

text \<open>
  C7, as amended.  In \<open>write_streams\<close>, the maximum number of packets coalesced into
  one send burst equals the send quantum, itself capped at 65536 bytes, divided by the
  effective maximum UDP payload size (the minimum of the connection's cap and the path
  maximum), and when the configured congestion controller is not BBR this count is
  further capped at 10, provided this count is at least 1.  The count \<open>n\<close> is the
  one the method computes.  It is a bound: whatever the libraries answer and in either
  build, a call that returns has had the transport write at most \<open>n\<close> packets, and on a
  return of 0 the payload handed to the socket is exactly these packets.  It is reached:
  when the transport writes packets of the full payload size the burst ends at the
  \<open>n\<close>-th, in a build with \<open>UDP_SEGMENT\<close> with all \<open>n\<close> handed to the socket in one
  \<open>send_packet\<close>, and without it with each sent as it is written.
\<close>

theorem write_streams_burst:
  "write_streams_max_pktcnt cc cn up = Inr n \<Longrightarrow> 1 \<le> n \<Longrightarrow>
   n = (if cc = NGTCP2_CC_ALGO_BBR
        then min 65536 (send_quantum cn)
               div min (max_udp_payload_size up) (path_max_udp_payload_size cn)
        else min (min 65536 (send_quantum cn)
                    div min (max_udp_payload_size up) (path_max_udp_payload_size cn)) 10)
   \<and> (\<forall>its rv up' cs pkts.
          write_streams e cn udp_segment cc ts now its up = Some (Inr (rv, up', cs, pkts)) \<longrightarrow>
          length pkts \<le> n \<and> (rv = 0 \<longrightarrow> sent_data cs = concat pkts))
   \<and> (length pkt = min (max_udp_payload_size up) (path_max_udp_payload_size cn) \<longrightarrow>
        write_streams e cn True cc ts now (replicate n (packet_turn p c pkt) @ rest) up =
          Some (write_streams_flush e cn ts now (length pkt) up (concat (replicate n pkt))
                  (replicate n (ngtcp2_conn_writev_stream (-1) False)) (replicate n pkt)))
   \<and> (pkt \<noteq> [] \<and> length pkt \<le> 65536 \<longrightarrow>
        burst_length (write_streams e cn False cc ts now
                        (replicate n (packet_turn p c pkt) @ rest) up) = Some n)"
proof -
  assume a: "write_streams_max_pktcnt cc cn up = Inr n" and n1: "1 \<le> n"
  let ?P = "write_streams_max_udp_payload_size cn up"
  let ?l = "\<lparr>buffered = [], pktcnt = 0, prev_ps = 0, prev_pi = 0, packets = []\<rparr>"
  note f = max_pktcnt_facts [OF a]
  have P: "?P = min (max_udp_payload_size up) (path_max_udp_payload_size cn)"
    by (simp add: write_streams_max_udp_payload_size_def)
  have nP: "n * ?P \<le> 65536" and P0: "0 < ?P"
    using f(2,3) by blast+
  have "n * 1 \<le> n * ?P"
    using P0 by (intro mult_le_mono2) simp
  then have "n \<le> 65536"
    using nP by linarith
  then have n64: "n < 2 ^ 64"
    by simp
  obtain m where m: "n = Suc m"
    using n1 by (cases n) simp_all
  have c1: "n = (if cc = NGTCP2_CC_ALGO_BBR
        then min 65536 (send_quantum cn)
               div min (max_udp_payload_size up) (path_max_udp_payload_size cn)
        else min (min 65536 (send_quantum cn)
                    div min (max_udp_payload_size up) (path_max_udp_payload_size cn)) 10)"
    using f(1) unfolding P .
  have c2: "\<forall>its rv up' cs pkts.
          write_streams e cn udp_segment cc ts now its up = Some (Inr (rv, up', cs, pkts)) \<longrightarrow>
          length pkts \<le> n \<and> (rv = 0 \<longrightarrow> sent_data cs = concat pkts)"
  proof (intro allI impI)
    fix its rv up' cs pkts
    assume "write_streams e cn udp_segment cc ts now its up = Some (Inr (rv, up', cs, pkts))"
    then have "write_streams_loop e cn udp_segment ts now ?P n its up ?l [] =
                 Some (Inr (rv, up', cs, pkts))"
      using a by (simp add: write_streams_def)
    from loop_bound [OF burst_inv_init [OF n1] n64 this]
    show "length pkts \<le> n \<and> (rv = 0 \<longrightarrow> sent_data cs = concat pkts)"
      by simp
  qed
  have c3: "length pkt = min (max_udp_payload_size up) (path_max_udp_payload_size cn) \<longrightarrow>
        write_streams e cn True cc ts now (replicate n (packet_turn p c pkt) @ rest) up =
          Some (write_streams_flush e cn ts now (length pkt) up (concat (replicate n pkt))
                  (replicate n (ngtcp2_conn_writev_stream (-1) False)) (replicate n pkt))"
  proof
    assume len: "length pkt = min (max_udp_payload_size up) (path_max_udp_payload_size cn)"
    then have lenP: "length pkt = ?P"
      using P by simp
    have "write_streams_loop e cn True ts now ?P n
            (replicate (Suc m) (packet_turn p c pkt) @ rest) up ?l [] =
          Some (write_streams_flush e cn ts now ?P up
                  (buffered ?l @ concat (replicate (Suc m) pkt))
                  ([] @ replicate (Suc m) (ngtcp2_conn_writev_stream (-1) False))
                  (packets ?l @ replicate (Suc m) pkt))"
      using lenP P0 n64 nP m by (intro loop_full_gso) simp_all
    then show "write_streams e cn True cc ts now (replicate n (packet_turn p c pkt) @ rest) up =
          Some (write_streams_flush e cn ts now (length pkt) up (concat (replicate n pkt))
                  (replicate n (ngtcp2_conn_writev_stream (-1) False)) (replicate n pkt))"
      using a m lenP by (simp add: write_streams_def)
  qed
  have c4: "pkt \<noteq> [] \<and> length pkt \<le> 65536 \<longrightarrow>
        burst_length (write_streams e cn False cc ts now
                        (replicate n (packet_turn p c pkt) @ rest) up) = Some n"
  proof
    assume h: "pkt \<noteq> [] \<and> length pkt \<le> 65536"
    have "burst_length (write_streams_loop e cn False ts now ?P n
            (replicate (Suc m) (packet_turn p c pkt) @ rest) up ?l []) =
          Some (length (packets ?l) + Suc m)"
      using h n64 m by (intro loop_full_nogso) simp_all
    then show "burst_length (write_streams e cn False cc ts now
                        (replicate n (packet_turn p c pkt) @ rest) up) = Some n"
      using a m by (simp add: write_streams_def)
  qed
  from c1 c2 c3 c4 show ?thesis
    by blast
qed

theorem write_streams_burst_witness:
  "write_streams_max_pktcnt NGTCP2_CC_ALGO_BBR (sample_conn\<lparr>send_quantum := 14520\<rparr>)
     sample_upstream = Inr 12
   \<and> (1::nat) \<le> 12
   \<and> write_streams sample_env (sample_conn\<lparr>send_quantum := 14520\<rparr>) True NGTCP2_CC_ALGO_BBR
         7 9 [packet_turn 0 0 [1, 2, 3]] sample_upstream =
       Some (Inr (0, sample_upstream\<lparr>idle_timer_repeat := 29999999991\<rparr>,
                  [ngtcp2_conn_writev_stream (-1) False, quic_send_packet [1, 2, 3] 1200,
                   ngtcp2_conn_update_pkt_tx_time 7, ev_timer_again_idle 29999999991,
                   signal_write],
                  [[1, 2, 3]]))
   \<and> length [[1, 2, 3 :: nat]] \<le> 12
   \<and> sent_data [ngtcp2_conn_writev_stream (-1) False, quic_send_packet [1, 2, 3] 1200,
                 ngtcp2_conn_update_pkt_tx_time 7, ev_timer_again_idle 29999999991,
                 signal_write] = concat [[1, 2, 3]]
   \<and> length (sample_packet 1200) =
         min (max_udp_payload_size sample_upstream)
           (path_max_udp_payload_size (sample_conn\<lparr>send_quantum := 14520\<rparr>))
   \<and> write_streams sample_env (sample_conn\<lparr>send_quantum := 14520\<rparr>) True NGTCP2_CC_ALGO_BBR
         7 9 (replicate 12 (packet_turn 0 0 (sample_packet 1200)) @ []) sample_upstream =
       Some (Inr (0, sample_upstream\<lparr>idle_timer_repeat := 29999999991\<rparr>,
                  replicate 12 (ngtcp2_conn_writev_stream (-1) False)
                  @ [quic_send_packet (concat (replicate 12 (sample_packet 1200))) 1200,
                     ngtcp2_conn_update_pkt_tx_time 7, ev_timer_again_idle 29999999991,
                     signal_write],
                  replicate 12 (sample_packet 1200)))
   \<and> sample_packet 1200 \<noteq> [] \<and> length (sample_packet 1200) \<le> 65536
   \<and> burst_length
         (write_streams sample_env (sample_conn\<lparr>send_quantum := 14520\<rparr>) False
            NGTCP2_CC_ALGO_BBR 7 9 (replicate 12 (packet_turn 0 0 (sample_packet 1200)) @ [])
            sample_upstream) = Some 12"
proof -
  let ?cn = "sample_conn\<lparr>send_quantum := 14520\<rparr>"
  have h1: "write_streams_max_pktcnt NGTCP2_CC_ALGO_BBR ?cn sample_upstream = Inr 12"
    by (simp add: write_streams_max_pktcnt_def write_streams_max_udp_payload_size_def
          sample_conn_def sample_upstream_def Let_def)
  have h2: "(1::nat) \<le> 12"
    by simp
  have len: "length (sample_packet 1200) =
               min (max_udp_payload_size sample_upstream) (path_max_udp_payload_size ?cn)"
    by (simp add: sample_packet_def sample_conn_def sample_upstream_def)
  have ne: "sample_packet 1200 \<noteq> [] \<and> length (sample_packet 1200) \<le> 65536"
    by (auto simp add: sample_packet_def)
  have run: "write_streams sample_env ?cn True NGTCP2_CC_ALGO_BBR 7 9
               [packet_turn 0 0 [1, 2, 3]] sample_upstream =
             Some (Inr (0, sample_upstream\<lparr>idle_timer_repeat := 29999999991\<rparr>,
                  [ngtcp2_conn_writev_stream (-1) False, quic_send_packet [1, 2, 3] 1200,
                   ngtcp2_conn_update_pkt_tx_time 7, ev_timer_again_idle 29999999991,
                   signal_write],
                  [[1, 2, 3]]))"
    by (simp add: write_streams_def write_streams_max_pktcnt_def
          write_streams_max_udp_payload_size_def write_streams_iteration_def
          write_streams_written_def write_streams_packet_def write_streams_flush_def
          packet_turn_def send_packet_def reset_idle_timer_def
          sample_env_def sample_conn_def sample_upstream_def Let_def)
  note t = write_streams_burst [OF h1 h2, where e = sample_env and udp_segment = True
             and ts = 7 and now = 9 and pkt = "sample_packet 1200" and p = 0 and c = 0
             and rest = "[]"]
  have b: "length [[1, 2, 3 :: nat]] \<le> 12
           \<and> sent_data [ngtcp2_conn_writev_stream (-1) False, quic_send_packet [1, 2, 3] 1200,
                 ngtcp2_conn_update_pkt_tx_time 7, ev_timer_again_idle 29999999991,
                 signal_write] = concat [[1, 2, 3]]"
    using t run by blast
  have g: "write_streams sample_env ?cn True NGTCP2_CC_ALGO_BBR 7 9
             (replicate 12 (packet_turn 0 0 (sample_packet 1200)) @ []) sample_upstream =
           Some (write_streams_flush sample_env ?cn 7 9 (length (sample_packet 1200))
                   sample_upstream (concat (replicate 12 (sample_packet 1200)))
                   (replicate 12 (ngtcp2_conn_writev_stream (-1) False))
                   (replicate 12 (sample_packet 1200)))"
    using t len by blast
  have fl: "write_streams_flush sample_env ?cn 7 9 (length (sample_packet 1200))
                   sample_upstream (concat (replicate 12 (sample_packet 1200)))
                   (replicate 12 (ngtcp2_conn_writev_stream (-1) False))
                   (replicate 12 (sample_packet 1200)) =
            Inr (0, sample_upstream\<lparr>idle_timer_repeat := 29999999991\<rparr>,
                  replicate 12 (ngtcp2_conn_writev_stream (-1) False)
                  @ [quic_send_packet (concat (replicate 12 (sample_packet 1200))) 1200,
                     ngtcp2_conn_update_pkt_tx_time 7, ev_timer_again_idle 29999999991,
                     signal_write],
                  replicate 12 (sample_packet 1200))"
    by (simp add: write_streams_flush_def send_packet_def reset_idle_timer_def
          length_sample_packet sample_env_def sample_conn_def Let_def)
  have ng: "burst_length
         (write_streams sample_env ?cn False
            NGTCP2_CC_ALGO_BBR 7 9 (replicate 12 (packet_turn 0 0 (sample_packet 1200)) @ [])
            sample_upstream) = Some 12"
    using write_streams_burst [OF h1 h2, where e = sample_env
             and ts = 7 and now = 9 and pkt = "sample_packet 1200" and p = 0 and c = 0
             and rest = "[]"] ne by blast
  from h1 h2 run b len g [unfolded fl] ne ng show ?thesis
    by blast
qed

text \<open>The claim as first stated fails in two ways.  With a send quantum above 65536
  (BBR, quantum 131072, payload size 1200) the quantum divided by the payload size is
  109, but the method computes 54 and the burst ends at the 54th of 109 packets the
  transport would write, in either build.  With a send quantum below the payload size
  (quantum 1000) the division gives 0, and since \<open>++pktcnt == max_pktcnt\<close> is tested
  after the increment the count never stops the burst: here it has three packets.\<close>

theorem write_streams_burst_counterexample:
  "write_streams_max_pktcnt NGTCP2_CC_ALGO_BBR sample_conn sample_upstream = Inr 54
   \<and> send_quantum sample_conn
        div min (max_udp_payload_size sample_upstream) (path_max_udp_payload_size sample_conn)
       = 109
   \<and> burst_length
         (write_streams sample_env sample_conn True NGTCP2_CC_ALGO_BBR 0 0
            (replicate 54 (packet_turn 0 0 (sample_packet 1200))
             @ replicate 55 (packet_turn 0 0 (sample_packet 1200)))
            sample_upstream) = Some 54
   \<and> burst_length
         (write_streams sample_env sample_conn False NGTCP2_CC_ALGO_BBR 0 0
            (replicate 54 (packet_turn 0 0 (sample_packet 1200))
             @ replicate 55 (packet_turn 0 0 (sample_packet 1200)))
            sample_upstream) = Some 54
   \<and> write_streams_max_pktcnt NGTCP2_CC_ALGO_BBR (sample_conn\<lparr>send_quantum := 1000\<rparr>)
         sample_upstream = Inr 0
   \<and> send_quantum (sample_conn\<lparr>send_quantum := 1000\<rparr>)
        div min (max_udp_payload_size sample_upstream)
              (path_max_udp_payload_size (sample_conn\<lparr>send_quantum := 1000\<rparr>))
       = 0
   \<and> burst_length
         (write_streams sample_env (sample_conn\<lparr>send_quantum := 1000\<rparr>) True
            NGTCP2_CC_ALGO_BBR 0 0
            [packet_turn 0 0 (sample_packet 1200), packet_turn 0 0 (sample_packet 1200),
             packet_turn 0 0 [1, 2, 3]]
            sample_upstream) = Some 3"
proof -
  let ?l = "\<lparr>buffered = [], pktcnt = 0, prev_ps = 0, prev_pi = 0, packets = []\<rparr>"
  let ?full = "packet_turn 0 0 (sample_packet 1200)"
  have h1: "write_streams_max_pktcnt NGTCP2_CC_ALGO_BBR sample_conn sample_upstream = Inr 54"
    by (simp add: write_streams_max_pktcnt_def write_streams_max_udp_payload_size_def
          sample_conn_def sample_upstream_def Let_def)
  have P: "write_streams_max_udp_payload_size sample_conn sample_upstream = 1200"
    by (simp add: write_streams_max_udp_payload_size_def sample_conn_def sample_upstream_def)
  have h2: "send_quantum sample_conn
        div min (max_udp_payload_size sample_upstream) (path_max_udp_payload_size sample_conn)
       = 109"
    by (simp add: sample_conn_def sample_upstream_def)
  have "write_streams_loop sample_env sample_conn True 0 0 1200 54
          (replicate (Suc 53) ?full @ replicate 55 ?full) sample_upstream ?l [] =
        Some (write_streams_flush sample_env sample_conn 0 0 1200 sample_upstream
                (buffered ?l @ concat (replicate (Suc 53) (sample_packet 1200)))
                ([] @ replicate (Suc 53) (ngtcp2_conn_writev_stream (-1) False))
                (packets ?l @ replicate (Suc 53) (sample_packet 1200)))"
    by (intro loop_full_gso) (simp_all add: length_sample_packet)
  then have g: "burst_length
         (write_streams sample_env sample_conn True NGTCP2_CC_ALGO_BBR 0 0
            (replicate 54 ?full @ replicate 55 ?full) sample_upstream) = Some 54"
    using h1 P
    by (simp add: write_streams_def burst_length_def write_streams_flush_def
          split: prod.splits)
  have "burst_length (write_streams_loop sample_env sample_conn False 0 0 1200 54
          (replicate (Suc 53) ?full @ replicate 55 ?full) sample_upstream ?l []) =
        Some (length (packets ?l) + Suc 53)"
    by (intro loop_full_nogso) (auto simp add: sample_packet_def)
  then have ng: "burst_length
         (write_streams sample_env sample_conn False NGTCP2_CC_ALGO_BBR 0 0
            (replicate 54 ?full @ replicate 55 ?full) sample_upstream) = Some 54"
    using h1 P by (simp add: write_streams_def)
  let ?cn = "sample_conn\<lparr>send_quantum := 1000\<rparr>"
  have z1: "write_streams_max_pktcnt NGTCP2_CC_ALGO_BBR ?cn sample_upstream = Inr 0"
    by (simp add: write_streams_max_pktcnt_def write_streams_max_udp_payload_size_def
          sample_conn_def sample_upstream_def Let_def)
  have Pz: "write_streams_max_udp_payload_size ?cn sample_upstream = 1200"
    by (simp add: write_streams_max_udp_payload_size_def sample_conn_def sample_upstream_def)
  have z2: "send_quantum ?cn
        div min (max_udp_payload_size sample_upstream) (path_max_udp_payload_size ?cn) = 0"
    by (simp add: sample_conn_def sample_upstream_def)
  have ne: "sample_packet 1200 \<noteq> []"
    by (auto simp add: sample_packet_def)
  have z3: "burst_length
         (write_streams sample_env ?cn True NGTCP2_CC_ALGO_BBR 0 0
            [?full, ?full, packet_turn 0 0 [1, 2, 3]] sample_upstream) = Some 3"
    using z1 Pz ne
    by (simp add: write_streams_def packet_turn_gso length_sample_packet burst_length_def
          write_streams_flush_def split: prod.splits)
  from h1 h2 g ng z1 z2 z3 show ?thesis
    by blast
qed

subsection \<open>Stream shutdown and packet sending\<close>


text \<open>
  C10. For every stream id and every \<open>app_error_code\<close>, \<open>shutdown_stream_read\<close> makes
  exactly one call into the transport, \<open>ngtcp2_conn_shutdown_stream_read\<close> on that
  stream with error code \<open>NGHTTP3_H3_NO_ERROR\<close>, whatever \<open>app_error_code\<close> the
  caller passed and whatever the transport returns.
\<close>

theorem shutdown_stream_read_no_error:
  "snd (shutdown_stream_read e stream_id app_error_code) =
     [ngtcp2_conn_shutdown_stream_read stream_id NGHTTP3_H3_NO_ERROR]"
  by (simp add: shutdown_stream_read_def Let_def)

text \<open>
  C8. When the \<open>sendmsg\<close> under \<open>send_packet\<close> fails with \<open>EINVAL\<close> or \<open>EMSGSIZE\<close>,
  \<open>send_packet\<close> returns failure and the upstream afterwards is the upstream before
  with \<open>max_udp_payload_size_\<close> set to \<open>NGTCP2_MAX_UDP_PAYLOAD_SIZE\<close>, no other field
  changed; on any other send failure it returns failure and the upstream is unchanged.
\<close>

theorem send_packet_frame:
  "(ret e (quic_send_packet data gso_size) = - EINVAL
      \<or> ret e (quic_send_packet data gso_size) = - EMSGSIZE
    \<longrightarrow> fst (send_packet e up data gso_size) = -1
        \<and> fst (snd (send_packet e up data gso_size))
            = up\<lparr>max_udp_payload_size := NGTCP2_MAX_UDP_PAYLOAD_SIZE e\<rparr>)
   \<and> (ret e (quic_send_packet data gso_size) \<noteq> 0
      \<and> ret e (quic_send_packet data gso_size) \<noteq> - EINVAL
      \<and> ret e (quic_send_packet data gso_size) \<noteq> - EMSGSIZE
    \<longrightarrow> fst (send_packet e up data gso_size) = -1
        \<and> fst (snd (send_packet e up data gso_size)) = up)"
  by (simp add: send_packet_def Let_def EINVAL_def EMSGSIZE_def)

text \<open>At concrete inputs: \<open>EINVAL\<close> lowers the payload size from 1452 to 1200, another
  error leaves the upstream as it was.\<close>

theorem send_packet_frame_witness:
  "ret (sample_env\<lparr>ret := (\<lambda>c. - 22)\<rparr>) (quic_send_packet [1, 2, 3] 1452) = - EINVAL
   \<and> fst (snd (send_packet (sample_env\<lparr>ret := (\<lambda>c. - 22)\<rparr>) sample_upstream [1, 2, 3] 1452))
       = sample_upstream\<lparr>max_udp_payload_size := 1200\<rparr>
   \<and> ret (sample_env\<lparr>ret := (\<lambda>c. - 11)\<rparr>) (quic_send_packet [1, 2, 3] 1452) \<noteq> - EMSGSIZE
   \<and> fst (snd (send_packet (sample_env\<lparr>ret := (\<lambda>c. - 11)\<rparr>) sample_upstream [1, 2, 3] 1452))
       = sample_upstream"
  using send_packet_frame [of "sample_env\<lparr>ret := (\<lambda>c. - 22)\<rparr>" "[1, 2, 3]" 1452 sample_upstream]
        send_packet_frame [of "sample_env\<lparr>ret := (\<lambda>c. - 11)\<rparr>" "[1, 2, 3]" 1452 sample_upstream]
  by (simp add: sample_env_def EINVAL_def EMSGSIZE_def)

subsection \<open>Handshake completion\<close>

text \<open>
  C9, as amended.  With an ALPN negotiated, \<open>handshake_completed\<close> returns success
  without submitting a token when the generation of the token from the peer address
  and the current keying-material secret fails; when it succeeds, the token generated
  is submitted to the transport by one call of \<open>ngtcp2_conn_submit_new_token\<close>, and
  the callback returns success if and only if that call does.  So after
  \<open>handshake_completed\<close> returns success, at most one new address-validation token
  has been submitted: exactly one when token generation succeeded, none when it failed.
\<close>

theorem handshake_completed_token:
  "(alpn \<noteq> [] \<and> generate_token e (path_remote_addr cn) secret = None \<longrightarrow>
      handshake_completed e cn alpn (secret # rest) = Inr (0, [set_alpn_from_conn]))
   \<and> (alpn \<noteq> [] \<and> generate_token e (path_remote_addr cn) secret = Some token \<longrightarrow>
      handshake_completed e cn alpn (secret # rest) =
        Inr (if ret e (ngtcp2_conn_submit_new_token token) \<noteq> 0 then -1 else 0,
             [set_alpn_from_conn, ngtcp2_conn_submit_new_token token]))
   \<and> (handshake_completed e cn alpn (secret # rest) = Inr (0, cs) \<longrightarrow>
      (case generate_token e (path_remote_addr cn) secret of
         None \<Rightarrow> cs = [set_alpn_from_conn] \<and> tokens_submitted cs = 0
       | Some token \<Rightarrow>
           cs = [set_alpn_from_conn, ngtcp2_conn_submit_new_token token]
           \<and> tokens_submitted cs = 1))"
  by (auto simp add: handshake_completed_def tokens_submitted_def Let_def
        split: if_splits option.splits)

text \<open>At concrete inputs: a token generated and submitted, and a failing token
  generation.\<close>

theorem handshake_completed_token_witness:
  "''h3'' \<noteq> []
   \<and> generate_token sample_env (path_remote_addr sample_conn) [7, 7] = Some [192, 0, 2, 1, 7, 7]
   \<and> handshake_completed sample_env sample_conn ''h3'' [[7, 7]]
     = Inr (0, [set_alpn_from_conn, ngtcp2_conn_submit_new_token [192, 0, 2, 1, 7, 7]])
   \<and> tokens_submitted [set_alpn_from_conn, ngtcp2_conn_submit_new_token [192, 0, 2, 1, 7, 7]] = 1
   \<and> generate_token (sample_env\<lparr>generate_token := (\<lambda>addr secret. None)\<rparr>)
         (path_remote_addr sample_conn) [7, 7] = None
   \<and> handshake_completed (sample_env\<lparr>generate_token := (\<lambda>addr secret. None)\<rparr>) sample_conn
       ''h3'' [[7, 7]] = Inr (0, [set_alpn_from_conn])"
  using handshake_completed_token [where alpn = "''h3''" and e = sample_env and cn = sample_conn
          and secret = "[7, 7]" and rest = "[]" and token = "[192, 0, 2, 1, 7, 7]"
          and cs = "[set_alpn_from_conn, ngtcp2_conn_submit_new_token [192, 0, 2, 1, 7, 7]]"]
        handshake_completed_token [where alpn = "''h3''"
          and e = "sample_env\<lparr>generate_token := (\<lambda>addr secret. None)\<rparr>" and cn = sample_conn
          and secret = "[7, 7]" and rest = "[]" and token = "[]" and cs = "[set_alpn_from_conn]"]
  by (simp add: sample_env_def sample_conn_def tokens_submitted_def)

text \<open>The claim as first stated fails when \<open>generate_token\<close> fails: the callback still
  returns success, and no token has been submitted.\<close>

theorem handshake_completed_counterexample:
  "handshake_completed (sample_env\<lparr>generate_token := (\<lambda>addr secret. None)\<rparr>) sample_conn
     ''h3'' [[7, 7]] = Inr (0, [set_alpn_from_conn])
   \<and> tokens_submitted [set_alpn_from_conn] = 0"
  by (simp add: handshake_completed_def sample_env_def tokens_submitted_def)

subsection \<open>Graceful shutdown\<close>

text \<open>With an HTTP/3 connection, the prepare watcher runs \<open>check_shutdown\<close> at most
  once while the worker shuts down: the first run submits the notice and stops the
  watcher.  From then on the loop stays in the second phase, in which the timer, while
  armed, has not fired.\<close>

lemma prepare_from_before:
  "before_notice st \<Longrightarrow>
   \<exists>st'. loop_step e cn True st PREPARE = Inr st' \<and> after_notice st'"
  by (auto simp add: before_notice_def after_notice_def notices_def goaways_def
        prepare_cb_def check_shutdown_def start_graceful_shutdown_def delete_handler_now_def
        Let_def split: prod.splits if_splits)

lemma timeout_from_before:
  "before_notice st \<Longrightarrow> loop_step e cn g st SHUTDOWN_TIMEOUT = Inr st"
  by (simp add: before_notice_def)

lemma step_after_notice:
  "after_notice st \<Longrightarrow> \<exists>st'. loop_step e cn g st ev = Inr st' \<and> after_notice st'"
  by (cases ev)
     (auto simp add: after_notice_def notices_def goaways_def shutdown_timeout_cb_def
        submit_goaway_def delete_handler_now_def Let_def split: prod.splits if_splits)

lemma run_after_notice:
  "after_notice st \<Longrightarrow> \<exists>st'. run_loop e cn g st evs = Inr st' \<and> after_notice st'"
proof (induction evs arbitrary: st)
  case Nil
  then show ?case by simp
next
  case (Cons ev evs)
  obtain st1 where s1: "loop_step e cn g st ev = Inr st1" and a1: "after_notice st1"
    using step_after_notice [OF Cons.prems] by blast
  show ?case using Cons.IH [OF a1] s1 by simp
qed

lemma run_before_notice:
  "before_notice st \<Longrightarrow>
   \<exists>st'. run_loop e cn True st evs = Inr st'
         \<and> (if PREPARE \<in> set evs then after_notice st' else before_notice st')"
proof (induction evs arbitrary: st)
  case Nil
  then show ?case by simp
next
  case (Cons ev evs)
  show ?case
  proof (cases ev)
    case PREPARE
    obtain st1 where s1: "loop_step e cn True st PREPARE = Inr st1" and a1: "after_notice st1"
      using prepare_from_before [OF Cons.prems] by blast
    obtain st2 where s2: "run_loop e cn True st1 evs = Inr st2" and a2: "after_notice st2"
      using run_after_notice [OF a1] by blast
    show ?thesis using PREPARE s1 s2 a2 by simp
  next
    case SHUTDOWN_TIMEOUT
    have same: "loop_step e cn True st SHUTDOWN_TIMEOUT = Inr st"
      using Cons.prems by (rule timeout_from_before)
    show ?thesis using SHUTDOWN_TIMEOUT same Cons.IH [OF Cons.prems] by simp
  qed
qed

lemma after_notice_counts: "after_notice st \<Longrightarrow> notices st = 1 \<and> goaways st \<le> 1"
  by (auto simp add: after_notice_def split: if_splits)

lemma before_notice_counts: "before_notice st \<Longrightarrow> notices st = 0 \<and> goaways st = 0"
  by (simp add: before_notice_def)

lemma timeout_fires_once:
  "\<not> handler_deleted st \<Longrightarrow> shutdown_timer_active (upstream st) \<Longrightarrow>
   httpconn (upstream st) \<Longrightarrow>
   \<exists>st'. loop_step e cn g st SHUTDOWN_TIMEOUT = Inr st'
         \<and> goaways st' = goaways st + 1 \<and> \<not> shutdown_timer_active (upstream st')"
  by (simp add: goaways_def shutdown_timeout_cb_def submit_goaway_def delete_handler_now_def
        Let_def split: prod.splits)

text \<open>Once the HTTP/3 connection exists the shutdown goes as the specification has it:
  from a state with the prepare watcher active, the timer not armed and nothing
  submitted, however many loop iterations and timer expiries follow, exactly one
  shutdown notice has been submitted as soon as one iteration has run, and at most one
  GOAWAY; the notice arms the timer with three times the probe timeout; and the armed
  timer, when it fires, submits exactly one GOAWAY.\<close>

lemma graceful_shutdown_with_httpconn:
  "before_notice st \<Longrightarrow>
   (\<exists>st'. run_loop e cn True st evs = Inr st'
          \<and> notices st' = (if PREPARE \<in> set evs then 1 else 0) \<and> goaways st' \<le> 1)
   \<and> (httpconn up \<and> \<not> shutdown_timer_active up
        \<and> ret e nghttp3_conn_submit_shutdown_notice = 0 \<longrightarrow>
        start_graceful_shutdown e cn up =
          Inr (0, up\<lparr>shutdown_timer_active := True,
                     shutdown_timer_after := (pto cn * 3) mod 2 ^ 64\<rparr>,
               [nghttp3_conn_submit_shutdown_notice, signal_write,
                ev_timer_start_shutdown ((pto cn * 3) mod 2 ^ 64)]))
   \<and> (shutdown_timer_active up \<longrightarrow> start_graceful_shutdown e cn up = Inr (0, up, []))"
proof -
  assume b: "before_notice st"
  obtain st' where r: "run_loop e cn True st evs = Inr st'"
    and p: "if PREPARE \<in> set evs then after_notice st' else before_notice st'"
    using run_before_notice [OF b] by blast
  have n: "notices st' = (if PREPARE \<in> set evs then 1 else 0) \<and> goaways st' \<le> 1"
    using p after_notice_counts [of st'] before_notice_counts [of st']
    by (cases "PREPARE \<in> set evs") auto
  have s1: "shutdown_timer_active up \<longrightarrow> start_graceful_shutdown e cn up = Inr (0, up, [])"
    by (simp add: start_graceful_shutdown_def)
  have s2: "httpconn up \<and> \<not> shutdown_timer_active up
        \<and> ret e nghttp3_conn_submit_shutdown_notice = 0 \<longrightarrow>
        start_graceful_shutdown e cn up =
          Inr (0, up\<lparr>shutdown_timer_active := True,
                     shutdown_timer_after := (pto cn * 3) mod 2 ^ 64\<rparr>,
               [nghttp3_conn_submit_shutdown_notice, signal_write,
                ev_timer_start_shutdown ((pto cn * 3) mod 2 ^ 64)])"
    by (simp add: start_graceful_shutdown_def Let_def)
  show ?thesis using r n s1 s2 by blast
qed

text \<open>
  C4.  Once the worker is in graceful shutdown, \<open>start_graceful_shutdown\<close> is to
  submit exactly one HTTP/3 shutdown notice however many loop iterations invoke it,
  and the shutdown timer, fired after three probe timeouts, exactly one GOAWAY.  The
  code does so once the HTTP/3 connection exists, but not before: for an upstream as
  its constructor leaves it, with the prepare watcher running and \<open>httpconn_\<close> still
  null, the first loop iteration of a worker in graceful shutdown stops the prepare
  watcher and hands the null pointer to \<open>nghttp3_conn_submit_shutdown_notice\<close>.  No
  notice is submitted, no timer is armed, and no later iteration comes back to it.
\<close>

theorem graceful_shutdown_before_httpconn:
  "constructed sample_loop_state
   \<and> start_graceful_shutdown sample_env sample_conn
        ((upstream sample_loop_state)\<lparr>prep_active := False\<rparr>) = Inl UndefinedBehaviour
   \<and> run_loop sample_env sample_conn True sample_loop_state [PREPARE] = Inl UndefinedBehaviour
   \<and> run_loop sample_env sample_conn True
        (sample_loop_state\<lparr>upstream := sample_upstream\<lparr>httpconn := True\<rparr>\<rparr>)
        [PREPARE, SHUTDOWN_TIMEOUT, PREPARE, PREPARE, SHUTDOWN_TIMEOUT]
     = Inr \<lparr>upstream = sample_upstream
                \<lparr>httpconn := True, prep_active := False, shutdown_timer_after := 3000000\<rparr>,
            handler_deleted = False,
            trace = [ev_prepare_stop, nghttp3_conn_submit_shutdown_notice, signal_write,
                     ev_timer_start_shutdown 3000000, nghttp3_conn_shutdown, signal_write]\<rparr>"
  by (simp add: constructed_def sample_loop_state_def sample_env_def sample_conn_def
        sample_upstream_def prepare_cb_def check_shutdown_def start_graceful_shutdown_def
        shutdown_timeout_cb_def submit_goaway_def Let_def)

subsection \<open>Request header limits\<close>

text \<open>\<open>error_reply\<close> always submits the response with the status it was given, ahead
  of anything else it asks of the libraries, and never asks for a downstream
  connection.\<close>

lemma error_reply_submits:
  "\<exists>rv cs. error_reply e config d status =
     (rv, d\<lparr>response := (response d)\<lparr>http_status := status\<rparr>,
            get_response_buf := append_body (get_response_buf d) (create_error_html e status),
            get_response_state := MSG_COMPLETE\<rparr>,
      update_tstamp
      # nghttp3_conn_submit_response (get_stream_id d)
          [('':status'', stringify_status e status),
           (''content-type'', ''text/html; charset=UTF-8''),
           (''server'', server_name config),
           (''content-length'', make_string_ref_uint e (length (create_error_html e status))),
           (''date'', time_http e)] True
      # cs)
     \<and> set cs \<subseteq> {reset_upstream_wtimer (get_stream_id d),
                   ngtcp2_conn_shutdown_stream_read (get_stream_id d) NGHTTP3_H3_NO_ERROR}"
  by (auto simp add: error_reply_def shutdown_stream_read_def Let_def split: prod.splits)

text \<open>
  C2, as amended.  For every request stream, a header or trailer field that would make
  the total header bytes exceed \<open>request_header_field_buffer\<close>, or that arrives when
  the number of stored fields has reached \<open>max_request_header_fields\<close>, stops the
  reading of that stream.  If it is not a trailer field and the response is not
  already complete, a 431 error reply is submitted, the field is not stored, no
  downstream connection is asked for, and the callback for the end of the header block
  returns without calling \<open>http_end_request_headers\<close>, so no downstream attempt is
  made for that request.  If it is a trailer field, or the response is already
  complete, the field is dropped and no reply is submitted.
\<close>

theorem request_header_limits:
  "too_large_or_many config d name val \<Longrightarrow>
   (\<not> trailer \<and> get_response_state d \<noteq> MSG_COMPLETE \<longrightarrow>
      (\<exists>rv d' cs.
         http_recv_request_header e config d name val never_index trailer
           = (rv, d',
              update_tstamp
              # nghttp3_conn_submit_response (get_stream_id d)
                  [('':status'', stringify_status e 431),
                   (''content-type'', ''text/html; charset=UTF-8''),
                   (''server'', server_name config),
                   (''content-length'', make_string_ref_uint e (length (create_error_html e 431))),
                   (''date'', time_http e)] True
              # cs)
         \<and> get_stop_reading d' \<and> http_status (response d') = 431
         \<and> get_response_state d' = MSG_COMPLETE
         \<and> request d' = request d
         \<and> \<not> downstream_attempted (get_stream_id d) cs
         \<and> http_recv_request_header_cb e config (Some d') name' val' never_index' = (0, Some d', [])
         \<and> http_end_request_headers_cb e end_request_headers (Some d') fin = (0, Some d', [])))
   \<and> (trailer \<or> get_response_state d = MSG_COMPLETE \<longrightarrow>
        http_recv_request_header e config d name val never_index trailer
          = (0, d\<lparr>get_stop_reading := True\<rparr>, []))"
proof -
  assume big: "too_large_or_many config d name val"
  have a: "trailer \<or> get_response_state d = MSG_COMPLETE \<longrightarrow>
        http_recv_request_header e config d name val never_index trailer
          = (0, d\<lparr>get_stop_reading := True\<rparr>, [])"
    using big by (simp add: http_recv_request_header_def Let_def)
  have b: "\<not> trailer \<and> get_response_state d \<noteq> MSG_COMPLETE \<longrightarrow>
      (\<exists>rv d' cs.
         http_recv_request_header e config d name val never_index trailer
           = (rv, d',
              update_tstamp
              # nghttp3_conn_submit_response (get_stream_id d)
                  [('':status'', stringify_status e 431),
                   (''content-type'', ''text/html; charset=UTF-8''),
                   (''server'', server_name config),
                   (''content-length'', make_string_ref_uint e (length (create_error_html e 431))),
                   (''date'', time_http e)] True
              # cs)
         \<and> get_stop_reading d' \<and> http_status (response d') = 431
         \<and> get_response_state d' = MSG_COMPLETE
         \<and> request d' = request d
         \<and> \<not> downstream_attempted (get_stream_id d) cs
         \<and> http_recv_request_header_cb e config (Some d') name' val' never_index' = (0, Some d', [])
         \<and> http_end_request_headers_cb e end_request_headers (Some d') fin = (0, Some d', []))"
  proof
    assume h: "\<not> trailer \<and> get_response_state d \<noteq> MSG_COMPLETE"
    obtain rv cs where er: "error_reply e config (d\<lparr>get_stop_reading := True\<rparr>) 431 =
     (rv, d\<lparr>get_stop_reading := True\<rparr>
            \<lparr>response := (response (d\<lparr>get_stop_reading := True\<rparr>))\<lparr>http_status := 431\<rparr>,
            get_response_buf := append_body (get_response_buf (d\<lparr>get_stop_reading := True\<rparr>))
                                  (create_error_html e 431),
            get_response_state := MSG_COMPLETE\<rparr>,
      update_tstamp
      # nghttp3_conn_submit_response (get_stream_id (d\<lparr>get_stop_reading := True\<rparr>))
          [('':status'', stringify_status e 431),
           (''content-type'', ''text/html; charset=UTF-8''),
           (''server'', server_name config),
           (''content-length'', make_string_ref_uint e (length (create_error_html e 431))),
           (''date'', time_http e)] True
      # cs)"
      and sub: "set cs \<subseteq> {reset_upstream_wtimer (get_stream_id (d\<lparr>get_stop_reading := True\<rparr>)),
                   ngtcp2_conn_shutdown_stream_read (get_stream_id (d\<lparr>get_stop_reading := True\<rparr>))
                     NGHTTP3_H3_NO_ERROR}"
      using error_reply_submits [of e config "d\<lparr>get_stop_reading := True\<rparr>" 431] by blast
    have na: "\<not> downstream_attempted (get_stream_id d) cs"
      using sub by (auto simp add: downstream_attempted_def)
    show "\<exists>rv d' cs.
         http_recv_request_header e config d name val never_index trailer
           = (rv, d',
              update_tstamp
              # nghttp3_conn_submit_response (get_stream_id d)
                  [('':status'', stringify_status e 431),
                   (''content-type'', ''text/html; charset=UTF-8''),
                   (''server'', server_name config),
                   (''content-length'', make_string_ref_uint e (length (create_error_html e 431))),
                   (''date'', time_http e)] True
              # cs)
         \<and> get_stop_reading d' \<and> http_status (response d') = 431
         \<and> get_response_state d' = MSG_COMPLETE
         \<and> request d' = request d
         \<and> \<not> downstream_attempted (get_stream_id d) cs
         \<and> http_recv_request_header_cb e config (Some d') name' val' never_index' = (0, Some d', [])
         \<and> http_end_request_headers_cb e end_request_headers (Some d') fin = (0, Some d', [])"
      using big h er na
      by (simp add: http_recv_request_header_def Let_def http_end_request_headers_cb_def
            http_recv_request_header_cb_def)
  qed
  show ?thesis using a b by blast
qed

text \<open>At a concrete input: a limit of zero fields, a header field and a trailer
  field.\<close>

theorem request_header_limits_witness:
  "too_large_or_many (sample_config\<lparr>max_request_header_fields := 0\<rparr>) sample_downstream ''a'' ''b''
   \<and> get_response_state sample_downstream \<noteq> MSG_COMPLETE
   \<and> (\<exists>rv d' cs.
         http_recv_request_header sample_env (sample_config\<lparr>max_request_header_fields := 0\<rparr>)
           sample_downstream ''a'' ''b'' False False
           = (rv, d',
              update_tstamp
              # nghttp3_conn_submit_response 0
                  [('':status'', ''431''), (''content-type'', ''text/html; charset=UTF-8''),
                   (''server'', ''nghttpx''), (''content-length'', ''4''),
                   (''date'', ''Tue, 03 Nov 2026 00:00:00 GMT'')] True
              # cs)
         \<and> get_stop_reading d')
   \<and> http_recv_request_header sample_env (sample_config\<lparr>max_request_header_fields := 0\<rparr>)
         sample_downstream ''a'' ''b'' False True
       = (0, sample_downstream\<lparr>get_stop_reading := True\<rparr>, [])"
proof -
  have big: "too_large_or_many (sample_config\<lparr>max_request_header_fields := 0\<rparr>)
               sample_downstream ''a'' ''b''"
    by (simp add: too_large_or_many_def)
  have st: "get_response_state sample_downstream \<noteq> MSG_COMPLETE"
    by (simp add: sample_downstream_def)
  have sid: "get_stream_id sample_downstream = 0"
    by (simp add: sample_downstream_def)
  show ?thesis
    using big st
      request_header_limits [OF big, where trailer = False and e = sample_env
        and never_index = False and end_request_headers = "\<lambda>d fin. (0, d, [])" and fin = True]
      request_header_limits [OF big, where trailer = True and e = sample_env
        and never_index = False and end_request_headers = "\<lambda>d fin. (0, d, [])" and fin = True]
    by (simp add: sid sample_env_def sample_config_def) blast
qed

text \<open>The claim as first stated fails when the response is already complete: a header
  field over the limit then gets no 431 reply.\<close>

theorem request_header_limits_counterexample:
  "too_large_or_many (sample_config\<lparr>max_request_header_fields := 0\<rparr>)
     (sample_downstream\<lparr>get_response_state := MSG_COMPLETE\<rparr>) ''a'' ''b''
   \<and> http_recv_request_header sample_env (sample_config\<lparr>max_request_header_fields := 0\<rparr>)
       (sample_downstream\<lparr>get_response_state := MSG_COMPLETE\<rparr>) ''a'' ''b'' False False
     = (0, sample_downstream\<lparr>get_response_state := MSG_COMPLETE, get_stop_reading := True\<rparr>, [])"
  by (simp add: too_large_or_many_def http_recv_request_header_def sample_config_def
        sample_downstream_def num_fields_def Let_def)

subsection \<open>Response header\<close>

text \<open>With the strip flag for \<open>sec-websocket-accept\<close> set, the copied header list is
  the one of the response without its \<open>sec-websocket-accept\<close> fields.\<close>

lemma copy_headers_strips_sec_websocket_accept:
  "HDOP_STRIP_SEC_WEBSOCKET_ACCEPT \<in> flags \<Longrightarrow>
   copy_headers_to_nva_nocopy flags hs =
     copy_headers_to_nva_nocopy flags
       (filter (\<lambda>kv. hd_token kv \<noteq> HD_SEC_WEBSOCKET_ACCEPT) hs)"
  unfolding copy_headers_to_nva_nocopy_def
  by (induction hs) auto

text \<open>
  C5.  In \<open>on_downstream_header_complete\<close>, when the method reaches the submission of
  a final response (no response hook has ended it, the assertion on the downstream
  connection holds): if the request used the WebSocket extended CONNECT protocol and
  the downstream status is 101, the submitted \<open>:status\<close> is 200 and the forwarded
  header list is that of the response with every \<open>sec-websocket-accept\<close> field
  removed; for any other request and status the \<open>:status\<close> submitted is the
  downstream status.  In a build without mruby no hook runs, and the \<open>location\<close>
  rewrite ahead of the submission changes neither the status nor the protocol.
\<close>

theorem websocket_upgrade_rewritten:
  "before_response_nva e config None d = Inr (rewrite_location e config d, [])
   \<and> http_status (response (rewrite_location e config d)) = http_status (response d)
   \<and> connect_proto (request (rewrite_location e config d)) = connect_proto (request d)
   \<and> (before_response_nva e config mruby d = Inr (d', cs)
        \<and> \<not> get_non_final_response d'
        \<and> response_headers_tail e config d' = Inr tail \<longrightarrow>
      (connect_proto (request d') = WEBSOCKET \<and> http_status (response d') = 101 \<longrightarrow>
         (\<exists>rv rest.
            on_downstream_header_complete e config mruby d =
              Inr (rv, d',
                   cs @ nghttp3_conn_submit_response (get_stream_id d')
                          (('':status'', stringify_status e 200)
                           # copy_headers_to_nva_nocopy
                               (insert HDOP_STRIP_SEC_WEBSOCKET_ACCEPT
                                  (HDOP_STRIP_ALL - {HDOP_STRIP_VIA}))
                               (filter (\<lambda>kv. hd_token kv \<noteq> HD_SEC_WEBSOCKET_ACCEPT)
                                  (headers (resp_fs (response d'))))
                           @ tail)
                          (expect_response_body d' \<or> expect_response_trailer d')
                        # rest)))
      \<and> (\<not> (connect_proto (request d') = WEBSOCKET \<and> http_status (response d') = 101) \<longrightarrow>
         (\<exists>rv rest.
            on_downstream_header_complete e config mruby d =
              Inr (rv, d',
                   cs @ nghttp3_conn_submit_response (get_stream_id d')
                          (('':status'', stringify_status e (http_status (response d')))
                           # copy_headers_to_nva_nocopy (HDOP_STRIP_ALL - {HDOP_STRIP_VIA})
                               (headers (resp_fs (response d')))
                           @ tail)
                          (expect_response_body d' \<or> expect_response_trailer d')
                        # rest))))"
proof -
  have n: "before_response_nva e config None d = Inr (rewrite_location e config d, [])"
    by (simp add: before_response_nva_def Let_def)
  have st: "http_status (response (rewrite_location e config d)) = http_status (response d)"
    by (simp add: rewrite_location_def Let_def)
  have cp: "connect_proto (request (rewrite_location e config d)) = connect_proto (request d)"
    by (simp add: rewrite_location_def Let_def)
  have s: "copy_headers_to_nva_nocopy
             (insert HDOP_STRIP_SEC_WEBSOCKET_ACCEPT (HDOP_STRIP_ALL - {HDOP_STRIP_VIA}))
             (headers (resp_fs (response d')))
           = copy_headers_to_nva_nocopy
             (insert HDOP_STRIP_SEC_WEBSOCKET_ACCEPT (HDOP_STRIP_ALL - {HDOP_STRIP_VIA}))
             (filter (\<lambda>kv. hd_token kv \<noteq> HD_SEC_WEBSOCKET_ACCEPT)
                (headers (resp_fs (response d'))))"
    by (rule copy_headers_strips_sec_websocket_accept) simp
  have m: "before_response_nva e config mruby d = Inr (d', cs)
        \<and> \<not> get_non_final_response d'
        \<and> response_headers_tail e config d' = Inr tail \<longrightarrow>
      (connect_proto (request d') = WEBSOCKET \<and> http_status (response d') = 101 \<longrightarrow>
         (\<exists>rv rest.
            on_downstream_header_complete e config mruby d =
              Inr (rv, d',
                   cs @ nghttp3_conn_submit_response (get_stream_id d')
                          (('':status'', stringify_status e 200)
                           # copy_headers_to_nva_nocopy
                               (insert HDOP_STRIP_SEC_WEBSOCKET_ACCEPT
                                  (HDOP_STRIP_ALL - {HDOP_STRIP_VIA}))
                               (filter (\<lambda>kv. hd_token kv \<noteq> HD_SEC_WEBSOCKET_ACCEPT)
                                  (headers (resp_fs (response d'))))
                           @ tail)
                          (expect_response_body d' \<or> expect_response_trailer d')
                        # rest)))
      \<and> (\<not> (connect_proto (request d') = WEBSOCKET \<and> http_status (response d') = 101) \<longrightarrow>
         (\<exists>rv rest.
            on_downstream_header_complete e config mruby d =
              Inr (rv, d',
                   cs @ nghttp3_conn_submit_response (get_stream_id d')
                          (('':status'', stringify_status e (http_status (response d')))
                           # copy_headers_to_nva_nocopy (HDOP_STRIP_ALL - {HDOP_STRIP_VIA})
                               (headers (resp_fs (response d')))
                           @ tail)
                          (expect_response_body d' \<or> expect_response_trailer d')
                        # rest)))"
    using s
    by (auto simp add: on_downstream_header_complete_def Let_def split: prod.splits)
  show ?thesis using n st cp m by blast
qed

text \<open>At a concrete input: a 101 response to a WebSocket extended CONNECT, carrying
  \<open>sec-websocket-accept: abc\<close> and one other field.\<close>

theorem websocket_upgrade_rewritten_witness:
  "before_response_nva sample_env sample_config None sample_downstream
     = Inr (sample_downstream, [])
   \<and> \<not> get_non_final_response sample_downstream
   \<and> response_headers_tail sample_env sample_config sample_downstream
       = Inr [(''server'', ''nghttpx''), (''via'', ''2 nghttpx'')]
   \<and> connect_proto (request sample_downstream) = WEBSOCKET
   \<and> http_status (response sample_downstream) = 101
   \<and> on_downstream_header_complete sample_env sample_config None sample_downstream =
       Inr (0, sample_downstream,
            [nghttp3_conn_submit_response 0
               [('':status'', ''200''), (''x-backend'', ''b1''),
                (''server'', ''nghttpx''), (''via'', ''2 nghttpx'')] True,
             reset_upstream_wtimer 0])
   \<and> \<not> (connect_proto (request sample_downstream) = WEBSOCKET
          \<and> http_status (response
               (sample_downstream\<lparr>response := (response sample_downstream)\<lparr>http_status := 204\<rparr>\<rparr>))
             = 101)
   \<and> on_downstream_header_complete sample_env sample_config None
        (sample_downstream\<lparr>response := (response sample_downstream)\<lparr>http_status := 204\<rparr>\<rparr>) =
       Inr (0, sample_downstream\<lparr>response := (response sample_downstream)\<lparr>http_status := 204\<rparr>\<rparr>,
            [nghttp3_conn_submit_response 0
               [('':status'', ''204''), (''sec-websocket-accept'', ''abc''),
                (''x-backend'', ''b1''),
                (''server'', ''nghttpx''), (''via'', ''2 nghttpx'')] True,
             reset_upstream_wtimer 0])"
proof -
  have b: "before_response_nva sample_env sample_config None sample_downstream
     = Inr (sample_downstream, [])"
    by (simp add: before_response_nva_def rewrite_location_def sample_env_def
          sample_config_def sample_downstream_def Let_def)
  have f: "\<not> get_non_final_response sample_downstream"
    by (simp add: sample_downstream_def)
  have t: "response_headers_tail sample_env sample_config sample_downstream
       = Inr [(''server'', ''nghttpx''), (''via'', ''2 nghttpx'')]"
    by (simp add: response_headers_tail_def header_def sample_env_def
          sample_config_def sample_downstream_def Let_def)
  have w: "connect_proto (request sample_downstream) = WEBSOCKET
           \<and> http_status (response sample_downstream) = 101"
    by (simp add: sample_downstream_def)
  have r: "on_downstream_header_complete sample_env sample_config None sample_downstream =
       Inr (0, sample_downstream,
            [nghttp3_conn_submit_response 0
               [('':status'', ''200''), (''x-backend'', ''b1''),
                (''server'', ''nghttpx''), (''via'', ''2 nghttpx'')] True,
             reset_upstream_wtimer 0])"
    using websocket_upgrade_rewritten
            [where e = sample_env and config = sample_config and mruby = None
               and d = sample_downstream and d' = sample_downstream and cs = "[]"
               and tail = "[(''server'', ''nghttpx''), (''via'', ''2 nghttpx'')]"]
          b f t w
    by (auto simp add: on_downstream_header_complete_def before_response_nva_def
          rewrite_location_def response_headers_tail_def header_def
          copy_headers_to_nva_nocopy_def HDOP_STRIP_ALL_def
          sample_env_def sample_config_def sample_downstream_def Let_def)
  have r2: "on_downstream_header_complete sample_env sample_config None
        (sample_downstream\<lparr>response := (response sample_downstream)\<lparr>http_status := 204\<rparr>\<rparr>) =
       Inr (0, sample_downstream\<lparr>response := (response sample_downstream)\<lparr>http_status := 204\<rparr>\<rparr>,
            [nghttp3_conn_submit_response 0
               [('':status'', ''204''), (''sec-websocket-accept'', ''abc''),
                (''x-backend'', ''b1''),
                (''server'', ''nghttpx''), (''via'', ''2 nghttpx'')] True,
             reset_upstream_wtimer 0])"
    by (simp add: on_downstream_header_complete_def before_response_nva_def
          rewrite_location_def response_headers_tail_def header_def
          copy_headers_to_nva_nocopy_def HDOP_STRIP_ALL_def shutdown_stream_read_def
          sample_env_def sample_config_def sample_downstream_def Let_def)
  have nw: "\<not> (connect_proto (request sample_downstream) = WEBSOCKET
          \<and> http_status (response
               (sample_downstream\<lparr>response := (response sample_downstream)\<lparr>http_status := 204\<rparr>\<rparr>))
             = 101)"
    by simp
  show ?thesis using b f t w r r2 nw by blast
qed

end
